theory Spec2Isabelle
  imports Complex_Main "HOL-Library.Char_ord" "HOL-Library.List_Lexorder"
begin

section \<open>Conventions of the embedding\<close>

text \<open>
  The valuation engine (\<^verbatim>\<open>ip_valuation_engine.py\<close>) and the assumption calculator
  (\<^verbatim>\<open>auto_assumptions.py\<close>) are embedded as HOL functions.

  \<^item> Python numbers (\<^verbatim>\<open>float\<close>, and the \<^verbatim>\<open>int\<close>s that are mixed with them) are
    modelled as \<^typ>\<open>real\<close>: all statements below are about the exact arithmetic of the
    formulas, not about binary rounding, overflow or NaN.
  \<^item> A raised exception is a value \<open>Inl e\<close> of \<open>error + 'a\<close>. True division by zero
    raises \<^verbatim>\<open>ZeroDivisionError\<close> in Python, reading the last element of an empty list
    raises \<^verbatim>\<open>IndexError\<close>; both are branches of the model.
  \<^item> The string-keyed result dictionaries are records with the keys as fields; the
    rows of a yearly ledger are association lists from the key to the number.
  \<^item> \<^verbatim>\<open>print\<close> calls (the logged warnings) have no effect on any result and are left out.
  \<^item> The keys \<^verbatim>\<open>id\<close>, \<^verbatim>\<open>type\<close>, \<^verbatim>\<open>method\<close> and \<^verbatim>\<open>note\<close> are the fields \<open>id'\<close>, \<open>type'\<close>,
    \<open>method'\<close> and \<open>note'\<close>,
    the plain words being taken; a leading underscore of a Python name is dropped.
\<close>

datatype value_error =
    Unable_to_fetch string
  | Segment_not_found string string "string list"
  | Unknown_valuation_method string

datatype error = IndexError | ZeroDivisionError | ValueError value_error

definition py_div :: "real \<Rightarrow> real \<Rightarrow> error + real" where
  "py_div a b = (if b = 0 then Inl ZeroDivisionError else Inr (a / b))"

definition py_last :: "'a list \<Rightarrow> error + 'a" where
  "py_last xs = (if xs = [] then Inl IndexError else Inr (last xs))"

section \<open>Valuation results\<close>

type_synonym row = "(string \<times> real) list"

datatype assumption = Num real | Rates "(string \<times> real) list"

record valuation =
  method' :: string
  pv_explicit_period :: "real option"
  pv_terminal_value :: "real option"
  total_value :: real
  yearly_details :: "row list"
  assumptions :: "(string \<times> assumption) list"

section \<open>Relief from Royalty\<close>

text \<open>
  The \<^verbatim>\<open>for year, revenue in enumerate(segment_revenues, start=1)\<close> loop, with the two
  accumulators \<^verbatim>\<open>pv_royalties\<close> and \<^verbatim>\<open>yearly_details\<close>.
\<close>

fun rfr_years ::
  "real \<Rightarrow> real \<Rightarrow> real \<Rightarrow> real \<Rightarrow> nat \<Rightarrow> real list \<Rightarrow> real \<times> row list \<Rightarrow> error + real \<times> row list"
where
  "rfr_years royalty_rate tax_rate wacc attribution_pct year [] acc = Inr acc"
| "rfr_years royalty_rate tax_rate wacc attribution_pct year (revenue # rest) acc =
     (let annual_royalty_savings = revenue * royalty_rate * (1 - tax_rate) * attribution_pct;
          discount_factor = (1 + wacc) ^ year
      in case py_div annual_royalty_savings discount_factor of
           Inl e \<Rightarrow> Inl e
         | Inr pv \<Rightarrow>
             rfr_years royalty_rate tax_rate wacc attribution_pct (Suc year) rest
               (fst acc + pv,
                snd acc @ [[(''year'', real year), (''revenue'', revenue),
                            (''royalty_savings'', annual_royalty_savings),
                            (''discount_factor'', discount_factor),
                            (''present_value'', pv)]]))"

definition relief_from_royalty ::
  "real list \<Rightarrow> real \<Rightarrow> real \<Rightarrow> real \<Rightarrow> real \<Rightarrow> real \<Rightarrow> error + valuation"
where
  "relief_from_royalty segment_revenues royalty_rate tax_rate wacc attribution_pct terminal_growth =
     (case rfr_years royalty_rate tax_rate wacc attribution_pct 1 segment_revenues (0, []) of
        Inl e \<Rightarrow> Inl e
      | Inr (pv_royalties, details) \<Rightarrow>
     (case py_last segment_revenues of
        Inl e \<Rightarrow> Inl e
      | Inr last_revenue \<Rightarrow>
     (let terminal_revenue = last_revenue * (1 + terminal_growth);
          terminal_royalty = terminal_revenue * royalty_rate * (1 - tax_rate) * attribution_pct
      in case py_div terminal_royalty (wacc - terminal_growth) of
        Inl e \<Rightarrow> Inl e
      | Inr terminal_value \<Rightarrow>
     (case py_div terminal_value ((1 + wacc) ^ length segment_revenues) of
        Inl e \<Rightarrow> Inl e
      | Inr pv_terminal \<Rightarrow>
          Inr \<lparr> method' = ''Relief from Royalty'',
                pv_explicit_period = Some pv_royalties,
                pv_terminal_value = Some pv_terminal,
                total_value = pv_royalties + pv_terminal,
                yearly_details = details,
                assumptions =
                  [(''royalty_rate'', Num royalty_rate), (''tax_rate'', Num tax_rate),
                   (''wacc'', Num wacc), (''attribution_pct'', Num attribution_pct),
                   (''terminal_growth'', Num terminal_growth)] \<rparr>))))"

section \<open>Multi-Period Excess Earnings\<close>

text \<open>
  \<^verbatim>\<open>contributory_assets\<close> is a dictionary from an asset class to its required return;
  the code only iterates over it, so it is an association list here.
\<close>

fun mpee_years ::
  "real \<Rightarrow> (string \<times> real) list \<Rightarrow> real \<Rightarrow> real \<Rightarrow> real \<Rightarrow> nat \<Rightarrow> real list \<Rightarrow>
   real \<times> row list \<Rightarrow> error + real \<times> row list"
where
  "mpee_years operating_margin contributory_assets ip_contribution_pct wacc tax_rate year [] acc =
     Inr acc"
| "mpee_years operating_margin contributory_assets ip_contribution_pct wacc tax_rate year
     (revenue # rest) acc =
     (let operating_income = revenue * operating_margin;
          total_cac = foldl (\<lambda>total_cac (asset_type, return_rate).
                               total_cac + (revenue * 0.5) * return_rate) 0 contributory_assets;
          excess_earnings = operating_income - total_cac;
          ip_earnings = excess_earnings * ip_contribution_pct;
          ip_cash_flow = ip_earnings * (1 - tax_rate);
          discount_factor = (1 + wacc) ^ year
      in case py_div ip_cash_flow discount_factor of
           Inl e \<Rightarrow> Inl e
         | Inr pv \<Rightarrow>
             mpee_years operating_margin contributory_assets ip_contribution_pct wacc tax_rate
               (Suc year) rest
               (fst acc + pv,
                snd acc @ [[(''year'', real year), (''revenue'', revenue),
                            (''operating_income'', operating_income),
                            (''contributory_asset_charges'', total_cac),
                            (''excess_earnings'', excess_earnings),
                            (''ip_earnings'', ip_earnings),
                            (''ip_cash_flow'', ip_cash_flow),
                            (''present_value'', pv)]]))"

definition multi_period_excess_earnings ::
  "real list \<Rightarrow> real \<Rightarrow> (string \<times> real) list \<Rightarrow> real \<Rightarrow> real \<Rightarrow> real \<Rightarrow> real \<Rightarrow>
   error + valuation"
where
  "multi_period_excess_earnings segment_revenues operating_margin contributory_assets
     ip_contribution_pct wacc tax_rate terminal_growth =
     (case mpee_years operating_margin contributory_assets ip_contribution_pct wacc tax_rate 1
             segment_revenues (0, []) of
        Inl e \<Rightarrow> Inl e
      | Inr (pv_excess_earnings, details) \<Rightarrow>
     (case py_last segment_revenues of
        Inl e \<Rightarrow> Inl e
      | Inr last_revenue \<Rightarrow>
     (let terminal_revenue = last_revenue * (1 + terminal_growth);
          terminal_operating_income = terminal_revenue * operating_margin;
          terminal_cac = sum_list (map snd contributory_assets) * terminal_revenue * 0.5;
          terminal_excess = terminal_operating_income - terminal_cac;
          terminal_ip_cf = terminal_excess * ip_contribution_pct * (1 - tax_rate)
      in case py_div terminal_ip_cf (wacc - terminal_growth) of
        Inl e \<Rightarrow> Inl e
      | Inr terminal_value \<Rightarrow>
     (case py_div terminal_value ((1 + wacc) ^ length segment_revenues) of
        Inl e \<Rightarrow> Inl e
      | Inr pv_terminal \<Rightarrow>
          Inr \<lparr> method' = ''Multi-Period Excess Earnings'',
                pv_explicit_period = Some pv_excess_earnings,
                pv_terminal_value = Some pv_terminal,
                total_value = pv_excess_earnings + pv_terminal,
                yearly_details = details,
                assumptions =
                  [(''operating_margin'', Num operating_margin),
                   (''contributory_assets'', Rates contributory_assets),
                   (''ip_contribution_pct'', Num ip_contribution_pct),
                   (''wacc'', Num wacc), (''tax_rate'', Num tax_rate),
                   (''terminal_growth'', Num terminal_growth)] \<rparr>))))"

section \<open>Technology Factor\<close>

text \<open>
  Python list indexing by an integer: a negative index counts from the end, an index out
  of range raises \<^verbatim>\<open>IndexError\<close>.
\<close>

definition py_index :: "'a list \<Rightarrow> int \<Rightarrow> error + 'a" where
  "py_index xs i =
     (if 0 \<le> i \<and> i < int (length xs) then Inr (xs ! nat i)
      else if i < 0 \<and> - int (length xs) \<le> i then Inr (xs ! nat (int (length xs) + i))
      else Inl IndexError)"

text \<open>
  The \<^verbatim>\<open>for year in range(1, projection_years + 1)\<close> loop, over the list of its years.
\<close>

fun tf_years ::
  "real list \<Rightarrow> real \<Rightarrow> int \<Rightarrow> real \<Rightarrow> real \<Rightarrow> nat list \<Rightarrow> real \<times> row list \<Rightarrow>
   error + real \<times> row list"
where
  "tf_years segment_revenues adjusted_royalty_rate remaining_life_years tax_rate wacc [] acc =
     Inr acc"
| "tf_years segment_revenues adjusted_royalty_rate remaining_life_years tax_rate wacc
     (year # rest) acc =
     (case (if year \<le> length segment_revenues
            then py_index segment_revenues (int year - 1)
            else py_last segment_revenues) of
        Inl e \<Rightarrow> Inl e
      | Inr revenue \<Rightarrow>
     (case py_div (real year) (real_of_int remaining_life_years * 1.5) of
        Inl e \<Rightarrow> Inl e
      | Inr elapsed \<Rightarrow>
     (let decay = max (1 - elapsed) 0.3;
          annual_royalty_savings = revenue * adjusted_royalty_rate * (1 - tax_rate) * decay;
          discount_factor = (1 + wacc) ^ year
      in case py_div annual_royalty_savings discount_factor of
           Inl e \<Rightarrow> Inl e
         | Inr pv \<Rightarrow>
             tf_years segment_revenues adjusted_royalty_rate remaining_life_years tax_rate wacc
               rest
               (fst acc + pv,
                snd acc @ [[(''year'', real year), (''revenue'', revenue),
                            (''decay_factor'', decay),
                            (''royalty_savings'', annual_royalty_savings),
                            (''present_value'', pv)]]))))"

definition technology_factor_valuation ::
  "real list \<Rightarrow> real \<Rightarrow> real \<Rightarrow> real \<Rightarrow> real \<Rightarrow> int \<Rightarrow> int \<Rightarrow> real \<Rightarrow> real \<Rightarrow> error + valuation"
where
  "technology_factor_valuation segment_revenues base_royalty_rate innovation_score
     commercial_score legal_strength_score remaining_life_years total_patent_life tax_rate wacc =
     (case py_div (real_of_int remaining_life_years) (real_of_int total_patent_life) of
        Inl e \<Rightarrow> Inl e
      | Inr life_share \<Rightarrow>
     (let tech_factor = innovation_score * 0.30 + commercial_score * 0.35
                        + legal_strength_score * 0.25 + life_share * 0.10;
          adjusted_royalty_rate = base_royalty_rate * (1 + tech_factor);
          projection_years = min (int (length segment_revenues)) remaining_life_years
      in case tf_years segment_revenues adjusted_royalty_rate remaining_life_years tax_rate wacc
                [1..<nat (projection_years + 1)] (0, []) of
        Inl e \<Rightarrow> Inl e
      | Inr (pv_royalties, details) \<Rightarrow>
          Inr \<lparr> method' = ''Technology Factor'',
                pv_explicit_period = None,
                pv_terminal_value = None,
                total_value = pv_royalties,
                yearly_details = details,
                assumptions =
                  [(''base_royalty_rate'', Num base_royalty_rate),
                   (''adjusted_royalty_rate'', Num adjusted_royalty_rate),
                   (''technology_factor'', Num tech_factor),
                   (''innovation_score'', Num innovation_score),
                   (''commercial_score'', Num commercial_score),
                   (''legal_strength_score'', Num legal_strength_score),
                   (''remaining_life_years'', Num (real_of_int remaining_life_years)),
                   (''tax_rate'', Num tax_rate), (''wacc'', Num wacc)] \<rparr>))"

section \<open>The data source\<close>

text \<open>
  Where a parameter of the source has the name of a result key (a record field here),
  the parameter is abbreviated: \<open>tkr\<close> for \<^verbatim>\<open>ticker\<close>, \<open>name\<close> for \<^verbatim>\<open>segment_name\<close>,
  \<open>yrs\<close> for \<^verbatim>\<open>years\<close>.

  The HTTP client is an external collaborator: it is modelled by what it returns. A
  response is a JSON object that is empty (\<^verbatim>\<open>{}\<close>, the client's answer to any transport
  failure), or has the expected list under its key, or is some other non-empty object
  (an error payload). Optional keys of the records inside are \<open>option\<close> fields, read
  with the default that the code passes to \<^verbatim>\<open>.get\<close>.
\<close>

datatype 'a response = Empty_dict | Other_dict | Listing "'a list"

definition listing :: "'a response \<Rightarrow> 'a list" where
  "listing r = (case r of Listing xs \<Rightarrow> xs | _ \<Rightarrow> [])"

definition get_num :: "real option \<Rightarrow> real" where
  "get_num v = (case v of None \<Rightarrow> 0 | Some x \<Rightarrow> x)"

definition get_str :: "string option \<Rightarrow> string" where
  "get_str v = (case v of None \<Rightarrow> [] | Some x \<Rightarrow> x)"

definition get_list :: "'a list option \<Rightarrow> 'a list" where
  "get_list v = (case v of None \<Rightarrow> [] | Some xs \<Rightarrow> xs)"

record seg_info =
  label :: "string option"

record item =
  amount :: "real option"
  segments :: "seg_info list option"

record period_data =
  items :: "item list option"

record income_statement =
  revenue :: "real option"
  gross_profit :: "real option"
  research_and_development :: "real option"
  operating_income :: "real option"
  income_tax_expense :: "real option"
  net_income :: "real option"
  interest_expense :: "real option"

record client =
  get_segmented_revenues :: "string \<Rightarrow> int \<Rightarrow> period_data response"
  get_income_statement :: "string \<Rightarrow> int \<Rightarrow> income_statement response"

section \<open>Segment Financial Allocator\<close>

record segment_financials =
  ticker :: string
  segment_name :: string
  revenues :: "real list"
  gross_profits :: "real list"
  gp_margins :: "real list"
  rd_expenses :: "real list"
  operating_incomes :: "real list"
  operating_margins :: "real list"
  allocation_pct :: "real list"
  years :: nat

record engine =
  client :: client
  cache :: "string \<rightharpoonup> segment_financials"

text \<open>Decimal rendering of an integer, for the f-string of the cache key.\<close>

fun str_nat :: "nat \<Rightarrow> string" where
  "str_nat n =
     (if n < 10 then [char_of (48 + n)] else str_nat (n div 10) @ [char_of (48 + n mod 10)])"

declare str_nat.simps [simp del]

definition str_int :: "int \<Rightarrow> string" where
  "str_int i = (if i < 0 then CHR ''-'' # str_nat (nat (- i)) else str_nat (nat i))"

definition cache_key :: "string \<Rightarrow> string \<Rightarrow> int \<Rightarrow> string" where
  "cache_key tkr name yrs = tkr @ ''_'' @ name @ ''_'' @ str_int yrs"

text \<open>
  \<^verbatim>\<open>.lower().replace(' ', '').replace('-', '')\<close>, on ASCII letters.
\<close>

definition lower_char :: "char \<Rightarrow> char" where
  "lower_char c = (if CHR ''A'' \<le> c \<and> c \<le> CHR ''Z'' then char_of (of_char c + (32::nat)) else c)"

definition normalize_label :: "string \<Rightarrow> string" where
  "normalize_label s =
     filter (\<lambda>c. c \<noteq> CHR ''-'') (filter (\<lambda>c. c \<noteq> CHR '' '') (map lower_char s))"

text \<open>
  The two inner loops with their \<^verbatim>\<open>break\<close>s: the amount of the first item of the period
  that carries a matching label, if there is one.
\<close>

definition item_matches :: "string \<Rightarrow> item \<Rightarrow> bool" where
  "item_matches segment_name_lower it =
     list_ex (\<lambda>si. normalize_label (get_str (label si)) = segment_name_lower)
       (get_list (segments it))"

definition period_amount :: "string \<Rightarrow> period_data \<Rightarrow> real option" where
  "period_amount segment_name_lower pd =
     map_option (\<lambda>it. get_num (amount it))
       (find (item_matches segment_name_lower) (get_list (items pd)))"

definition available_segments :: "period_data list \<Rightarrow> string list" where
  "available_segments pds =
     sort (remdups (concat (map (\<lambda>pd. concat (map (\<lambda>it. map (\<lambda>si. get_str (label si))
       (get_list (segments it))) (get_list (items pd)))) pds)))"

text \<open>The body of the allocation loop: one period's allocation fraction.\<close>

definition allocation_fraction :: "real \<Rightarrow> real \<Rightarrow> real" where
  "allocation_fraction seg_rev total_rev = (if total_rev > 0 then seg_rev / total_rev else 0)"

definition margin_of :: "real \<Rightarrow> real \<Rightarrow> real" where
  "margin_of x total_rev = (if total_rev > 0 then x / total_rev else 0)"

definition segment_share :: "real \<Rightarrow> real \<Rightarrow> real \<Rightarrow> real" where
  "segment_share x total_rev seg_rev = (if total_rev > 0 then seg_rev * (x / total_rev) else 0)"

text \<open>
  \<^verbatim>\<open>prepare_segment_financials\<close> is a cache lookup around a computation that reads only
  the data source. The computation (everything after \<^verbatim>\<open># Get data from API\<close>, up to the
  result dictionary) is \<open>fetch_segment_financials\<close>; the function itself follows.
\<close>

definition fetch_segment_financials ::
  "client \<Rightarrow> string \<Rightarrow> string \<Rightarrow> int \<Rightarrow> error + segment_financials"
where
  "fetch_segment_financials cl tkr name yrs =
     (let seg_data = get_segmented_revenues cl tkr yrs;
          income_data = get_income_statement cl tkr yrs
      in if seg_data = Empty_dict \<or> income_data = Empty_dict
         then Inl (ValueError (Unable_to_fetch tkr))
         else
     (let segment_name_lower = normalize_label name;
          segment_revenues = List.map_filter (period_amount segment_name_lower) (listing seg_data)
      in if segment_revenues = []
         then Inl (ValueError (Segment_not_found name tkr
                                 (available_segments (listing seg_data))))
         else
     (let total_revenues = map (\<lambda>period. get_num (revenue period)) (listing income_data);
          gross_profits = map (\<lambda>period. get_num (gross_profit period)) (listing income_data);
          rd_expenses =
            map (\<lambda>period. get_num (research_and_development period)) (listing income_data);
          operating_incomes =
            map (\<lambda>period. get_num (operating_income period)) (listing income_data);
          segment_allocation =
            map (\<lambda>(seg_rev, total_rev). allocation_fraction seg_rev total_rev)
              (zip segment_revenues total_revenues);
          segment_rd = map (\<lambda>(rd, alloc). rd * alloc) (zip rd_expenses segment_allocation);
          gp_margins =
            map (\<lambda>(gp, rev, seg_rev). margin_of gp rev)
              (zip gross_profits (zip total_revenues segment_revenues));
          segment_gp =
            map (\<lambda>(gp, rev, seg_rev). segment_share gp rev seg_rev)
              (zip gross_profits (zip total_revenues segment_revenues));
          op_margins =
            map (\<lambda>(op_inc, rev, seg_rev). margin_of op_inc rev)
              (zip operating_incomes (zip total_revenues segment_revenues));
          segment_op_income =
            map (\<lambda>(op_inc, rev, seg_rev). segment_share op_inc rev seg_rev)
              (zip operating_incomes (zip total_revenues segment_revenues))
      in Inr \<lparr> ticker = tkr, segment_name = name,
               revenues = segment_revenues, gross_profits = segment_gp,
               gp_margins = gp_margins, rd_expenses = segment_rd,
               operating_incomes = segment_op_income, operating_margins = op_margins,
               allocation_pct = segment_allocation, years = length segment_revenues \<rparr>)))"

definition prepare_segment_financials ::
  "engine \<Rightarrow> string \<Rightarrow> string \<Rightarrow> int \<Rightarrow> (error + segment_financials) \<times> engine"
where
  "prepare_segment_financials eng tkr name yrs =
     (let key = cache_key tkr name yrs in
      case cache eng key of
        Some cached \<Rightarrow> (Inr cached, eng)
      | None \<Rightarrow>
          (case fetch_segment_financials (client eng) tkr name yrs of
             Inl e \<Rightarrow> (Inl e, eng)
           | Inr result \<Rightarrow> (Inr result, eng\<lparr> cache := (cache eng)(key \<mapsto> result) \<rparr>)))"

section \<open>Portfolio Orchestrator\<close>

record related_segment =
  name :: string
  attribution_pct :: real

record ip_asset =
  id' :: string
  type' :: string
  description :: string
  related_segments :: "related_segment list"
  royalty_rate :: real
  valuation_method :: string
  innovation_score :: "real option"
  commercial_score :: "real option"
  legal_strength_score :: "real option"
  remaining_life_years :: "int option"
  total_patent_life :: int

text \<open>
  A segment's result is the method's result dictionary with three keys added.
\<close>

record segment_valuation = valuation +
  segment :: string
  segment_attribution :: real
  segment_data :: segment_financials

record asset_valuation =
  ip_asset_id :: string
  ip_type :: string
  description :: string
  ticker :: string
  total_value :: real
  segment_valuations :: "segment_valuation list"
  valuation_date :: string

record portfolio_valuation =
  ticker :: string
  total_portfolio_value :: real
  asset_count :: nat
  asset_valuations :: "asset_valuation list"
  assumptions :: "(string \<times> real) list"

text \<open>Python's \<^verbatim>\<open>x or d\<close> on an optional number: \<^verbatim>\<open>None\<close> and zero are falsy.\<close>

definition or_default :: "'a::zero option \<Rightarrow> 'a \<Rightarrow> 'a" where
  "or_default v d = (case v of None \<Rightarrow> d | Some x \<Rightarrow> if x = 0 then d else x)"

text \<open>The \<^verbatim>\<open>if\<close>/\<^verbatim>\<open>elif\<close> chain of the loop body that selects the valuation method.\<close>

definition select_valuation_method ::
  "ip_asset \<Rightarrow> segment_financials \<Rightarrow> real list \<Rightarrow> real \<Rightarrow> real \<Rightarrow> real \<Rightarrow> error + valuation"
where
  "select_valuation_method asset sd attributed_revenues wacc tax_rate terminal_growth =
     (if valuation_method asset = ''relief_from_royalty'' then
        relief_from_royalty attributed_revenues (royalty_rate asset) tax_rate wacc 1.0
          terminal_growth
      else if valuation_method asset = ''excess_earnings'' then
        (case py_div (sum_list (operating_margins sd)) (real (length (operating_margins sd))) of
           Inl e \<Rightarrow> Inl e
         | Inr avg_op_margin \<Rightarrow>
             multi_period_excess_earnings attributed_revenues avg_op_margin
               [(''working_capital'', 0.02), (''fixed_assets'', 0.10),
                (''other_intangibles'', 0.12)]
               0.50 wacc tax_rate terminal_growth)
      else if valuation_method asset = ''technology_factor'' then
        technology_factor_valuation attributed_revenues (royalty_rate asset)
          (or_default (innovation_score asset) 0.7)
          (or_default (commercial_score asset) 0.7)
          (or_default (legal_strength_score asset) 0.7)
          (or_default (remaining_life_years asset) 10)
          (total_patent_life asset) tax_rate wacc
      else Inl (ValueError (Unknown_valuation_method (valuation_method asset))))"

text \<open>
  The loop over \<^verbatim>\<open>ip_asset.related_segments\<close>. The engine is threaded through, since
  resolving a segment fills the cache; it is returned also when the loop raises.
\<close>

fun value_segments ::
  "engine \<Rightarrow> string \<Rightarrow> ip_asset \<Rightarrow> real \<Rightarrow> real \<Rightarrow> real \<Rightarrow> int \<Rightarrow> related_segment list \<Rightarrow>
   real \<times> segment_valuation list \<Rightarrow> (error + real \<times> segment_valuation list) \<times> engine"
where
  "value_segments eng tkr asset wacc tax_rate terminal_growth yrs [] acc = (Inr acc, eng)"
| "value_segments eng tkr asset wacc tax_rate terminal_growth yrs (segment_info # rest) acc =
     (let seg_name = name segment_info;
          seg_attribution = attribution_pct segment_info
      in case prepare_segment_financials eng tkr seg_name yrs of
           (Inl e, eng') \<Rightarrow>
             value_segments eng' tkr asset wacc tax_rate terminal_growth yrs rest acc
         | (Inr sd, eng') \<Rightarrow>
     (let attributed_revenues = map (\<lambda>r. r * seg_attribution) (revenues sd)
      in case select_valuation_method asset sd attributed_revenues wacc tax_rate
                terminal_growth of
           Inl e \<Rightarrow> (Inl e, eng')
         | Inr result \<Rightarrow>
             value_segments eng' tkr asset wacc tax_rate terminal_growth yrs rest
               (fst acc + valuation.total_value result,
                snd acc @ [valuation.extend result
                             (segment_valuation.fields seg_name seg_attribution sd)])))"

definition value_ip_asset ::
  "engine \<Rightarrow> string \<Rightarrow> ip_asset \<Rightarrow> real \<Rightarrow> real \<Rightarrow> real \<Rightarrow> int \<Rightarrow>
   (error + asset_valuation) \<times> engine"
where
  "value_ip_asset eng tkr asset wacc tax_rate terminal_growth yrs =
     (case value_segments eng tkr asset wacc tax_rate terminal_growth yrs
             (related_segments asset) (0, []) of
        (Inl e, eng') \<Rightarrow> (Inl e, eng')
      | (Inr (asset_total, valuations), eng') \<Rightarrow>
          (Inr \<lparr> ip_asset_id = id' asset, ip_type = type' asset,
                 description = ip_asset.description asset, ticker = tkr,
                 total_value = asset_total, segment_valuations = valuations,
                 valuation_date = ''latest_available'' \<rparr>, eng'))"



section \<open>Assumption Estimator\<close>

record balance_sheet =
  total_debt :: "real option"
  shareholders_equity :: "real option"
  outstanding_shares :: "real option"

record price_snapshot =
  price :: "real option"

text \<open>
  \<^verbatim>\<open>round(x, ndigits)\<close>: to the nearest multiple of \<open>10 ^ - ndigits\<close>, a tie going to the
  even one. The embedding rounds the real number. Python rounds the binary double, and
  a decimal such as 0.12345 that lies half-way between two multiples is not a double:
  the nearest double lies slightly to one side, so \<^verbatim>\<open>round(0.12345, 4)\<close> is 0.1235 where
  \<open>py_round\<close> gives 0.1234. So at and next to such a tie the two can differ by one unit
  of the last digit kept. The statements below about the estimators concern the
  branches that return the default constants, which do not round.
\<close>

definition py_round :: "real \<Rightarrow> nat \<Rightarrow> real" where
  "py_round x ndigits =
     (let y = x * 10 ^ ndigits; f = \<lfloor>y\<rfloor>; d = y - of_int f
      in of_int (if d < 1 / 2 then f else if d > 1 / 2 then f + 1
                 else if even f then f else f + 1) / 10 ^ ndigits)"

text \<open>\<^verbatim>\<open>statistics.mean\<close> of a list that the caller has checked to be non-empty.\<close>

definition mean :: "real list \<Rightarrow> real" where
  "mean xs = sum_list xs / real (length xs)"

record tax_estimate =
  effective_tax_rate :: real
  method' :: string
  note' :: string
  yearly_rates :: "real list option"

definition statement_tax_rate :: "income_statement \<Rightarrow> real option" where
  "statement_tax_rate stmt =
     (let tax_expense = get_num (income_tax_expense stmt);
          pretax_income = get_num (net_income stmt) + tax_expense
      in if pretax_income > 0 \<and> tax_expense \<ge> 0
         then (let tax_rate = tax_expense / pretax_income
               in if 0 \<le> tax_rate \<and> tax_rate \<le> 0.50 then Some tax_rate else None)
         else None)"

definition calculate_effective_tax_rate :: "income_statement response \<Rightarrow> tax_estimate" where
  "calculate_effective_tax_rate income_stmt =
     (let statements = listing income_stmt
      in if statements = [] then
           \<lparr> effective_tax_rate = 0.21, method' = ''default'',
             note' = ''Using default US corporate tax rate (21%)'', yearly_rates = None \<rparr>
         else
     (let tax_rates = List.map_filter statement_tax_rate (take 3 statements)
      in if tax_rates \<noteq> [] then
           \<lparr> effective_tax_rate = py_round (mean tax_rates) 4, method' = ''calculated'',
             note' = ''Average effective tax rate from last '' @ str_nat (length tax_rates)
                    @ '' years'',
             yearly_rates = Some tax_rates \<rparr>
         else
           \<lparr> effective_tax_rate = 0.21, method' = ''default'',
             note' = ''Insufficient data, using default US corporate tax rate (21%)'',
             yearly_rates = None \<rparr>))"

definition calculate_cost_of_debt :: "income_statement response \<Rightarrow> real \<Rightarrow> real" where
  "calculate_cost_of_debt income_stmt debt =
     (let statements = listing income_stmt
      in if statements = [] \<or> debt \<le> 0 then 0.04
         else (let interest = get_num (interest_expense (hd statements))
               in if interest > 0 \<and> debt > 0 then min (interest / debt) 0.15 else 0.04))"

definition calculate_cost_of_equity :: "string \<Rightarrow> real \<Rightarrow> real" where
  "calculate_cost_of_equity tkr market_cap =
     (let risk_free_rate = 0.045;
          market_risk_premium = 0.06;
          beta = (if market_cap > 500 * 10 ^ 9 then 1.0
                  else if market_cap > 100 * 10 ^ 9 then 1.1
                  else if market_cap > 10 * 10 ^ 9 then 1.2
                  else 1.3)
      in risk_free_rate + beta * market_risk_premium)"

record wacc_estimate =
  wacc :: real
  method' :: string
  note' :: string
  components :: "(string \<times> real) list option"

definition default_wacc :: "string \<Rightarrow> wacc_estimate" where
  "default_wacc tkr =
     \<lparr> wacc = 0.10, method' = ''default'',
       note' = ''Using default WACC (10%) - insufficient data for calculation'',
       components = None \<rparr>"

text \<open>
  \<^verbatim>\<open>tax_rate_info\<close> is the dictionary that \<^verbatim>\<open>_calculate_effective_tax_rate\<close> returned,
  which always has the key \<^verbatim>\<open>effective_tax_rate\<close>.
\<close>

definition calculate_wacc ::
  "string \<Rightarrow> income_statement response \<Rightarrow> balance_sheet response \<Rightarrow> price_snapshot option \<Rightarrow>
   tax_estimate \<Rightarrow> wacc_estimate"
where
  "calculate_wacc tkr income_stmt bs_response price_data tax_rate_info =
     (let balance_sheets = listing bs_response
      in if balance_sheets = [] then default_wacc tkr
         else
     (let latest_bs = hd balance_sheets;
          debt = get_num (total_debt latest_bs);
          equity = get_num (shareholders_equity latest_bs);
          shares_outstanding = get_num (outstanding_shares latest_bs);
          current_price = (case price_data of None \<Rightarrow> 0 | Some snapshot \<Rightarrow> get_num (price snapshot));
          market_cap = (if shares_outstanding > 0 \<and> current_price > 0
                        then shares_outstanding * current_price else equity);
          cost_of_debt = calculate_cost_of_debt income_stmt debt;
          cost_of_equity = calculate_cost_of_equity tkr market_cap;
          firm_value = market_cap + debt
      in if firm_value > 0 then
           (let equity_weight = market_cap / firm_value;
                debt_weight = debt / firm_value;
                tax_rate = effective_tax_rate tax_rate_info;
                w = equity_weight * cost_of_equity + debt_weight * cost_of_debt * (1 - tax_rate)
            in \<lparr> wacc = py_round w 4, method' = ''calculated'',
                 note' = ''Calculated using CAPM and market data'',
                 components = Some
                   [(''cost_of_equity'', py_round cost_of_equity 4),
                    (''cost_of_debt'', py_round cost_of_debt 4),
                    (''equity_weight'', py_round equity_weight 4),
                    (''debt_weight'', py_round debt_weight 4),
                    (''market_cap'', market_cap), (''total_debt'', debt)] \<rparr>)
         else default_wacc tkr))"

record growth_estimate =
  terminal_growth :: real
  method' :: string
  note' :: string
  historical_avg_growth :: "real option"
  yearly_growth_rates :: "real list option"

definition period_growth :: "income_statement \<times> income_statement \<Rightarrow> real option" where
  "period_growth p =
     (let current_rev = get_num (revenue (fst p));
          prior_rev = get_num (revenue (snd p))
      in if prior_rev > 0
         then (let growth = (current_rev - prior_rev) / prior_rev
               in if - 0.5 < growth \<and> growth < 0.5 then Some growth else None)
         else None)"

definition calculate_terminal_growth :: "income_statement response \<Rightarrow> string \<Rightarrow> growth_estimate"
where
  "calculate_terminal_growth income_stmt tkr =
     (let statements = listing income_stmt
      in if length statements < 3 then
           \<lparr> terminal_growth = 0.025, method' = ''default'',
             note' = ''Using default GDP growth rate (2.5%)'',
             historical_avg_growth = None, yearly_growth_rates = None \<rparr>
         else
     (let growth_rates = List.map_filter period_growth (zip statements (tl statements))
      in if growth_rates \<noteq> [] then
           (let avg_growth = mean growth_rates;
                capped_growth = min avg_growth 0.04;
                growth = max capped_growth 0.01
            in \<lparr> terminal_growth = py_round growth 4, method' = ''calculated'',
                 note' = ''Based on '' @ str_nat (length growth_rates)
                        @ ''-year avg growth, capped at GDP+inflation'',
                 historical_avg_growth = Some (py_round avg_growth 4),
                 yearly_growth_rates = Some (map (\<lambda>g. py_round g 4) growth_rates) \<rparr>)
         else
           \<lparr> terminal_growth = 0.025, method' = ''default'',
             note' = ''Using default GDP growth rate (2.5%)'',
             historical_avg_growth = None, yearly_growth_rates = None \<rparr>))"

section \<open>Reference formulas\<close>

text \<open>
  The two parts of the Relief-from-Royalty value in the words of the specification: the
  sum over the years \<open>1..N\<close> of the discounted after-tax royalty, and the Gordon-growth
  terminal value of the last year's revenue, discounted back \<open>N\<close> years. They are what
  the results of \<open>relief_from_royalty\<close> are compared with.
\<close>

definition rfr_explicit_pv :: "real list \<Rightarrow> real \<Rightarrow> real \<Rightarrow> real \<Rightarrow> real \<Rightarrow> real" where
  "rfr_explicit_pv revs rr t w a =
     (\<Sum>year = 1..length revs. revs ! (year - 1) * rr * (1 - t) * a / (1 + w) ^ year)"

definition rfr_terminal_pv :: "real list \<Rightarrow> real \<Rightarrow> real \<Rightarrow> real \<Rightarrow> real \<Rightarrow> real \<Rightarrow> real" where
  "rfr_terminal_pv revs rr t w a g =
     last revs * (1 + g) * rr * (1 - t) * a / (w - g) / (1 + w) ^ length revs"

text \<open>
  The Relief-from-Royalty value of one unit of after-tax royalty rate and attribution:
  the total is this value times \<open>royalty_rate \<times> (1 - tax_rate) \<times> attribution\<close>.
\<close>

definition rfr_unit_value :: "real list \<Rightarrow> real \<Rightarrow> real \<Rightarrow> real" where
  "rfr_unit_value revs w g =
     (\<Sum>year = 1..length revs. revs ! (year - 1) / (1 + w) ^ year)
     + last revs * (1 + g) / ((w - g) * (1 + w) ^ length revs)"

text \<open>
  The discounted Gordon-growth terminal value of Multi-Period Excess Earnings, in the same
  way: the terminal year's after-tax IP cash flow over \<open>w - g\<close>, discounted \<open>N\<close> years.
\<close>

definition mpee_terminal_pv ::
  "real list \<Rightarrow> real \<Rightarrow> (string \<times> real) list \<Rightarrow> real \<Rightarrow> real \<Rightarrow> real \<Rightarrow> real \<Rightarrow> real" where
  "mpee_terminal_pv revs om ca ip w t g =
     (last revs * (1 + g) * om - sum_list (map snd ca) * (last revs * (1 + g)) * 0.5)
       * ip * (1 - t) / (w - g) / (1 + w) ^ length revs"

section \<open>Notions used in the statements about the orchestrator\<close>

text \<open>
  The cache of an engine is only ever filled by \<open>prepare_segment_financials\<close>, with what
  the data source returned. An engine whose cache holds, under the keys of a ticker and a
  number of years, only such results is called consistent; a new engine, whose cache is
  empty, is.
\<close>

definition cache_consistent :: "engine \<Rightarrow> string \<Rightarrow> int \<Rightarrow> bool" where
  "cache_consistent eng tkr yrs =
     (\<forall>nm sd. cache eng (cache_key tkr nm yrs) = Some sd \<longrightarrow>
        fetch_segment_financials (client eng) tkr nm yrs = Inr sd)"

text \<open>
  A segment of an asset resolves when the allocator returns a profile for its name, and
  does not when the allocator raises (no data for the ticker, or no such segment).
\<close>

definition resolves :: "client \<Rightarrow> string \<Rightarrow> int \<Rightarrow> related_segment \<Rightarrow> bool" where
  "resolves cl tkr yrs s = (\<not> isl (fetch_segment_financials cl tkr (name s) yrs))"

text \<open>
  What the body of the loop in \<^verbatim>\<open>value_ip_asset\<close> appends for one segment, read off the data
  source directly: the result of the selected method on the revenues multiplied by the
  segment's attribution, with the three keys of the segment added.
\<close>

definition segment_result ::
  "client \<Rightarrow> string \<Rightarrow> ip_asset \<Rightarrow> real \<Rightarrow> real \<Rightarrow> real \<Rightarrow> int \<Rightarrow> related_segment \<Rightarrow>
   error + segment_valuation"
where
  "segment_result cl tkr asset w t g yrs s =
     (case fetch_segment_financials cl tkr (name s) yrs of
        Inl e \<Rightarrow> Inl e
      | Inr sd \<Rightarrow>
          (case select_valuation_method asset sd
                  (map (\<lambda>r. r * attribution_pct s) (revenues sd)) w t g of
             Inl e \<Rightarrow> Inl e
           | Inr result \<Rightarrow>
               Inr (valuation.extend result
                      (segment_valuation.fields (name s) (attribution_pct s) sd))))"

text \<open>
  The other way of applying the attribution, to compare the loop with: Relief from
  Royalty on the revenues of the segment as the allocator returns them, the attribution
  passed as \<^verbatim>\<open>attribution_pct\<close>. A segment that does not resolve counts zero.
\<close>

definition unscaled_rfr_total ::
  "client \<Rightarrow> string \<Rightarrow> ip_asset \<Rightarrow> real \<Rightarrow> real \<Rightarrow> real \<Rightarrow> int \<Rightarrow> related_segment \<Rightarrow> real"
where
  "unscaled_rfr_total cl tkr asset w t g yrs s =
     (case fetch_segment_financials cl tkr (name s) yrs of
        Inl e \<Rightarrow> 0
      | Inr sd \<Rightarrow>
          (case relief_from_royalty (revenues sd) (royalty_rate asset) t w
                  (attribution_pct s) g of
             Inl e \<Rightarrow> 0
           | Inr v \<Rightarrow> valuation.total_value v))"

section \<open>A data source for the examples\<close>

text \<open>
  A company \<^verbatim>\<open>ACME\<close> with one reported period: consolidated revenue 400, a segment
  \<^verbatim>\<open>Widgets\<close> with revenue 100 and an eliminations line of - 50. A company \<^verbatim>\<open>OVER\<close> whose
  segment \<^verbatim>\<open>Widgets\<close> is reported with revenue 200 against a consolidated revenue of 100.
  Every other ticker gets the empty response. The asset refers to \<^verbatim>\<open>Widgets\<close> and to
  \<^verbatim>\<open>Gadgets\<close>, a segment that no company reports.
\<close>

definition fixture_client :: client where
  "fixture_client =
     \<lparr> get_segmented_revenues = (\<lambda>tkr limit.
         if tkr = ''ACME'' then
           Listing [\<lparr> items = Some
             [\<lparr> amount = Some 100, segments = Some [\<lparr> label = Some ''Widgets'' \<rparr>] \<rparr>,
              \<lparr> amount = Some (- 50),
                segments = Some [\<lparr> label = Some ''Eliminations'' \<rparr>] \<rparr>] \<rparr>]
         else if tkr = ''OVER'' then
           Listing [\<lparr> items = Some
             [\<lparr> amount = Some 200, segments = Some [\<lparr> label = Some ''Widgets'' \<rparr>] \<rparr>] \<rparr>]
         else Empty_dict),
       get_income_statement = (\<lambda>tkr limit.
         if tkr = ''ACME'' then
           Listing [\<lparr> revenue = Some 400, gross_profit = Some 200,
                      research_and_development = Some 40, operating_income = Some 100,
                      income_tax_expense = Some 21, net_income = Some 79,
                      interest_expense = None \<rparr>]
         else if tkr = ''OVER'' then
           Listing [\<lparr> revenue = Some 100, gross_profit = Some 50,
                      research_and_development = Some 10, operating_income = Some 20,
                      income_tax_expense = Some 4, net_income = Some 16,
                      interest_expense = None \<rparr>]
         else Empty_dict) \<rparr>"

definition fixture_engine :: engine where
  "fixture_engine = \<lparr> client = fixture_client, cache = Map.empty \<rparr>"

definition fixture_asset :: "string \<Rightarrow> ip_asset" where
  "fixture_asset m =
     \<lparr> id' = ''PAT-1'', type' = ''patent'', description = ''Widget mechanism'',
       related_segments = [\<lparr> name = ''Widgets'', attribution_pct = 1 / 2 \<rparr>,
                           \<lparr> name = ''Gadgets'', attribution_pct = 1 / 5 \<rparr>],
       royalty_rate = 5 / 100, valuation_method = m,
       innovation_score = None, commercial_score = None, legal_strength_score = None,
       remaining_life_years = None, total_patent_life = 20 \<rparr>"

section \<open>Properties of the Assumption Estimator\<close>

text \<open>
  C4. With no income statements (the response is empty, or lacks the list, or the list
  is empty) and no balance sheets, the three estimators return their fallback
  constants, 21% tax, 10% WACC and 2.5% terminal growth, each tagged \<^verbatim>\<open>default\<close>. The
  estimators are total functions: there is no input on which they raise.
\<close>

theorem assumption_estimator_defaults:
  assumes "listing income_stmt = []" and "listing bs = []"
  shows "effective_tax_rate (calculate_effective_tax_rate income_stmt) = 0.21
       \<and> tax_estimate.method' (calculate_effective_tax_rate income_stmt) = ''default''
       \<and> wacc (calculate_wacc tkr income_stmt bs price_data tax_rate_info) = 0.10
       \<and> wacc_estimate.method' (calculate_wacc tkr income_stmt bs price_data tax_rate_info)
           = ''default''
       \<and> terminal_growth (calculate_terminal_growth income_stmt tkr) = 0.025
       \<and> growth_estimate.method' (calculate_terminal_growth income_stmt tkr) = ''default''"
  using assms
  by (simp add: calculate_effective_tax_rate_def calculate_wacc_def default_wacc_def
      calculate_terminal_growth_def)

theorem assumption_estimator_defaults_witness:
  "listing (Empty_dict :: income_statement response) = []
   \<and> listing (Empty_dict :: balance_sheet response) = []
   \<and> effective_tax_rate (calculate_effective_tax_rate Empty_dict) = 0.21
   \<and> tax_estimate.method' (calculate_effective_tax_rate Empty_dict) = ''default''
   \<and> wacc (calculate_wacc ''AAPL'' Empty_dict Empty_dict None
             (calculate_effective_tax_rate Empty_dict)) = 0.10
   \<and> wacc_estimate.method' (calculate_wacc ''AAPL'' Empty_dict Empty_dict None
             (calculate_effective_tax_rate Empty_dict)) = ''default''
   \<and> terminal_growth (calculate_terminal_growth Empty_dict ''AAPL'') = 0.025
   \<and> growth_estimate.method' (calculate_terminal_growth Empty_dict ''AAPL'') = ''default''"
proof -
  have a: "listing (Empty_dict :: income_statement response) = []" by (simp add: listing_def)
  have b: "listing (Empty_dict :: balance_sheet response) = []" by (simp add: listing_def)
  show ?thesis
    using assumption_estimator_defaults [OF a b, of "''AAPL''" None
        "calculate_effective_tax_rate Empty_dict"] a b
    by simp
qed

section \<open>Properties of Relief from Royalty\<close>

subsection \<open>What the function returns, and when it raises\<close>

lemma rfr_years_value:
  assumes "1 + w \<noteq> 0"
  shows "\<exists>d. rfr_years rr t w a year xs acc =
           Inr (fst acc + (\<Sum>i<length xs. xs ! i * rr * (1 - t) * a / (1 + w) ^ (year + i)), d)"
  using assms
proof (induction xs arbitrary: year acc)
  case Nil
  then show ?case by (cases acc) simp
next
  case (Cons x xs)
  define acc' where "acc' = (fst acc + x * rr * (1 - t) * a / (1 + w) ^ year,
       snd acc @ [[(''year'', real year), (''revenue'', x),
                   (''royalty_savings'', x * rr * (1 - t) * a),
                   (''discount_factor'', (1 + w) ^ year),
                   (''present_value'', x * rr * (1 - t) * a / (1 + w) ^ year)]])"
  obtain d where d: "rfr_years rr t w a (Suc year) xs acc' =
      Inr (fst acc' + (\<Sum>i<length xs. xs ! i * rr * (1 - t) * a / (1 + w) ^ (Suc year + i)), d)"
    using Cons.IH [OF Cons.prems, of "Suc year" acc'] by blast
  have s: "(\<Sum>i<length (x # xs). (x # xs) ! i * rr * (1 - t) * a / (1 + w) ^ (year + i)) =
        x * rr * (1 - t) * a / (1 + w) ^ year +
        (\<Sum>i<length xs. xs ! i * rr * (1 - t) * a / (1 + w) ^ (Suc year + i))"
    unfolding length_Cons sum.lessThan_Suc_shift by simp
  have step: "rfr_years rr t w a year (x # xs) acc = rfr_years rr t w a (Suc year) xs acc'"
    using Cons.prems by (simp add: py_div_def Let_def acc'_def)
  show ?case
    unfolding step d s by (simp add: acc'_def)
qed

lemma rfr_years_zero_discount:
  assumes "1 + w = 0" and "xs \<noteq> []" and "0 < year"
  shows "rfr_years rr t w a year xs acc = Inl ZeroDivisionError"
  using assms by (cases xs) (simp_all add: py_div_def Let_def)

lemma rfr_years_from_one:
  assumes "1 + w \<noteq> 0"
  shows "\<exists>d. rfr_years rr t w a 1 xs (0, []) = Inr (rfr_explicit_pv xs rr t w a, d)"
proof -
  have "(\<Sum>i<length xs. xs ! i * rr * (1 - t) * a / (1 + w) ^ (1 + i)) = rfr_explicit_pv xs rr t w a"
    unfolding rfr_explicit_pv_def
    by (simp add: sum.atLeast1_atMost_eq)
  with rfr_years_value [OF assms, of rr t a 1 xs "(0, [])"] show ?thesis by simp
qed

lemma relief_from_royalty_returns:
  assumes "xs \<noteq> []" and "1 + w \<noteq> 0" and "w \<noteq> g"
  shows "\<exists>v. relief_from_royalty xs rr t w a g = Inr v
           \<and> pv_explicit_period v = Some (rfr_explicit_pv xs rr t w a)
           \<and> pv_terminal_value v = Some (rfr_terminal_pv xs rr t w a g)
           \<and> valuation.total_value v
               = rfr_explicit_pv xs rr t w a + rfr_terminal_pv xs rr t w a g"
proof -
  obtain d where d: "rfr_years rr t w a 1 xs (0, []) = Inr (rfr_explicit_pv xs rr t w a, d)"
    using rfr_years_from_one [OF assms(2)] by blast
  show ?thesis
    unfolding relief_from_royalty_def d
    using assms by (simp add: py_last_def py_div_def Let_def rfr_terminal_pv_def)
qed

lemma relief_from_royalty_raises:
  "relief_from_royalty [] rr t w a g = Inl IndexError"
  "xs \<noteq> [] \<Longrightarrow> 1 + w = 0 \<Longrightarrow> relief_from_royalty xs rr t w a g = Inl ZeroDivisionError"
  "xs \<noteq> [] \<Longrightarrow> w = g \<Longrightarrow> relief_from_royalty xs rr t w a g = Inl ZeroDivisionError"
proof -
  show "relief_from_royalty [] rr t w a g = Inl IndexError"
    by (simp add: relief_from_royalty_def py_last_def)
  show "relief_from_royalty xs rr t w a g = Inl ZeroDivisionError" if "xs \<noteq> []" "1 + w = 0"
    using that by (simp add: relief_from_royalty_def rfr_years_zero_discount)
  show "relief_from_royalty xs rr t w a g = Inl ZeroDivisionError" if "xs \<noteq> []" "w = g"
  proof (cases "1 + w = 0")
    case True
    with that show ?thesis by (simp add: relief_from_royalty_def rfr_years_zero_discount)
  next
    case False
    obtain d where d: "rfr_years rr t w a 1 xs (0, []) = Inr (rfr_explicit_pv xs rr t w a, d)"
      using rfr_years_from_one [OF False] by blast
    show ?thesis
      unfolding relief_from_royalty_def d
      using that by (simp add: py_last_def py_div_def Let_def)
  qed
qed

text \<open>
  C1. For every non-empty revenue sequence \<open>[r\<^sub>1..r\<^sub>N]\<close>, royalty rate, tax rate,
  attribution fraction, WACC \<open>w\<close> and terminal growth \<open>g\<close> with \<open>w > g\<close>,
  \<open>relief_from_royalty\<close> returns, and its \<^verbatim>\<open>total_value\<close> is the sum over the years
  \<open>1..N\<close> of \<open>r\<^sub>y\<^sub>e\<^sub>a\<^sub>r \<times> royalty_rate \<times> (1 - tax_rate) \<times> attribution / (1 + w) ^ year\<close> plus the
  terminal value \<open>r\<^sub>N \<times> (1 + g) \<times> royalty_rate \<times> (1 - tax_rate) \<times> attribution / (w - g)\<close>
  divided by \<open>(1 + w) ^ N\<close>. The formula is a quotient by \<open>(1 + w) ^ year\<close>, so it is stated
  where it denotes a number, \<open>w \<noteq> - 1\<close>; that covers every WACC above a non-negative
  terminal growth, and every WACC above \<open>- 100%\<close>.
\<close>

theorem relief_from_royalty_total:
  assumes "revs \<noteq> []" and "g < w" and "w \<noteq> - 1"
  shows "\<exists>v. relief_from_royalty revs rr t w a g = Inr v
           \<and> valuation.total_value v
               = (\<Sum>year = 1..length revs. revs ! (year - 1) * rr * (1 - t) * a / (1 + w) ^ year)
                 + last revs * (1 + g) * rr * (1 - t) * a / (w - g) / (1 + w) ^ length revs"
proof -
  from assms have "1 + w \<noteq> 0" and "w \<noteq> g" by auto
  from relief_from_royalty_returns [OF assms(1) this, of rr t a]
  show ?thesis by (auto simp: rfr_explicit_pv_def rfr_terminal_pv_def)
qed

text \<open>
  Scenario A of the specification: revenues 100, 110, 121, royalty 5%, tax 21%,
  attribution 100%, WACC 10%, terminal growth 2%. By hand: the after-tax royalties are
  3.95, 4.345 and 4.7795, each discounting to \<open>3.95 / 1.10 = 3.590909\<close>; the terminal
  value \<open>4.7795 \<times> 1.02 / 0.08 = 60.938625\<close> discounts to 45.784091; the total is 56.556818.
  The function's \<^verbatim>\<open>total_value\<close> is within \<open>10\<^sup>-\<^sup>6\<close> relative tolerance of that figure (in
  the exact arithmetic of the embedding it is \<open>4977 / 88\<close>), and the first row of its
  ledger holds the year-1 discounted royalty \<open>3.95 / 1.10\<close>.
\<close>

theorem relief_from_royalty_total_witness:
  "[100, 110, 121] \<noteq> ([] :: real list) \<and> (2 / 100 :: real) < 10 / 100 \<and> (10 / 100 :: real) \<noteq> - 1
   \<and> map_sum id (\<lambda>v. \<bar>valuation.total_value v - 56.556818\<bar> \<le> 56.556818 / 10 ^ 6)
        (relief_from_royalty [100, 110, 121] (5 / 100) (21 / 100) (10 / 100) 1 (2 / 100))
       = Inr True
   \<and> map_sum id valuation.total_value
        (relief_from_royalty [100, 110, 121] (5 / 100) (21 / 100) (10 / 100) 1 (2 / 100))
       = Inr (4977 / 88)
   \<and> map_sum id (\<lambda>v. map_of (hd (yearly_details v)) ''present_value'')
        (relief_from_royalty [100, 110, 121] (5 / 100) (21 / 100) (10 / 100) 1 (2 / 100))
       = Inr (Some (3.95 / 1.10))"
proof -
  have h: "[100, 110, 121] \<noteq> ([] :: real list)" "(2 / 100 :: real) < 10 / 100"
    "(10 / 100 :: real) \<noteq> - 1" by simp_all
  from relief_from_royalty_total [OF h, of "5 / 100" "21 / 100" 1]
  obtain v where v: "relief_from_royalty [100, 110, 121] (5 / 100) (21 / 100) (10 / 100) 1 (2 / 100) = Inr v"
    and tv: "valuation.total_value v
       = (\<Sum>year = 1..length [100, 110, 121 :: real]. [100, 110, 121] ! (year - 1) * (5 / 100) * (1 - 21 / 100) * 1 / (1 + 10 / 100) ^ year)
         + last [100, 110, 121] * (1 + 2 / 100) * (5 / 100) * (1 - 21 / 100) * 1 / (10 / 100 - 2 / 100) / (1 + 10 / 100) ^ length [100, 110, 121 :: real]"
    by blast
  have n: "valuation.total_value v = 4977 / 88"
    unfolding tv by (simp add: eval_nat_numeral sum.atLeast_Suc_atMost)
  have "relief_from_royalty [100, 110, 121] (5 / 100) (21 / 100) (10 / 100) 1 (2 / 100)
          = Inr v \<longrightarrow> map_of (hd (yearly_details v)) ''present_value'' = Some (3.95 / 1.10)"
    by (auto simp: relief_from_royalty_def py_div_def py_last_def Let_def)
  with v have y: "map_of (hd (yearly_details v)) ''present_value'' = Some (3.95 / 1.10)"
    by simp
  from v n y show ?thesis by simp
qed


subsection \<open>Scaling\<close>

lemma relief_from_royalty_returns_iff:
  assumes "relief_from_royalty xs rr t w a g = Inr v"
  shows "xs \<noteq> [] \<and> 1 + w \<noteq> 0 \<and> w \<noteq> g"
proof -
  have ne: "xs \<noteq> []"
    using assms relief_from_royalty_raises(1) [of rr t w a g] by auto
  have "1 + w \<noteq> 0"
    using assms relief_from_royalty_raises(2) [OF ne, of w rr t a g] by auto
  moreover have "w \<noteq> g"
    using assms relief_from_royalty_raises(3) [OF ne, of w g rr t a] by auto
  ultimately show ?thesis using ne by simp
qed

lemma rfr_explicit_pv_scale:
  "rfr_explicit_pv (map (\<lambda>r. r * c) revs) rr t w a = c * rfr_explicit_pv revs rr t w a"
proof -
  have "rfr_explicit_pv (map (\<lambda>r. r * c) revs) rr t w a
      = (\<Sum>year = 1..length revs. c * (revs ! (year - 1) * rr * (1 - t) * a / (1 + w) ^ year))"
    unfolding rfr_explicit_pv_def length_map
    by (rule sum.cong) auto
  then show ?thesis by (simp add: rfr_explicit_pv_def sum_distrib_left)
qed

lemma rfr_terminal_pv_scale:
  "revs \<noteq> [] \<Longrightarrow>
     rfr_terminal_pv (map (\<lambda>r. r * c) revs) rr t w a g = c * rfr_terminal_pv revs rr t w a g"
  by (simp add: rfr_terminal_pv_def last_map)

lemma rfr_explicit_pv_attribution:
  "rfr_explicit_pv revs rr t w a = a * rfr_explicit_pv revs rr t w 1"
  unfolding rfr_explicit_pv_def sum_distrib_left
  by (rule sum.cong) simp_all

lemma rfr_terminal_pv_attribution:
  "rfr_terminal_pv revs rr t w a g = a * rfr_terminal_pv revs rr t w 1 g"
  by (simp add: rfr_terminal_pv_def)

lemma rfr_total_unit:
  "rfr_explicit_pv revs rr t w a + rfr_terminal_pv revs rr t w a g
     = rr * (1 - t) * a * rfr_unit_value revs w g"
proof -
  have e: "rfr_explicit_pv revs rr t w a
      = rr * (1 - t) * a * (\<Sum>year = 1..length revs. revs ! (year - 1) / (1 + w) ^ year)"
    unfolding rfr_explicit_pv_def sum_distrib_left
    by (rule sum.cong) simp_all
  have t: "rfr_terminal_pv revs rr t w a g
      = rr * (1 - t) * a * (last revs * (1 + g) / ((w - g) * (1 + w) ^ length revs))"
    by (simp add: rfr_terminal_pv_def)
  show ?thesis
    unfolding e t rfr_unit_value_def by (simp only: distrib_left)
qed

subsection \<open>Monotonicity\<close>

lemma discount_term_antimono:
  fixes x :: real
  assumes "0 \<le> x" and "0 < 1 + w1" and "w1 \<le> w2"
  shows "x / (1 + w2) ^ n \<le> x / (1 + w1) ^ n"
proof -
  have "(1 + w1) ^ n \<le> (1 + w2) ^ n" using assms by (intro power_mono) auto
  moreover have "0 < (1 + w1) ^ n" "0 < (1 + w2) ^ n" using assms by auto
  ultimately show ?thesis using assms(1) by (intro divide_left_mono) auto
qed

lemma discount_term_strict:
  fixes x :: real
  assumes "0 < x" and "0 < 1 + w1" and "w1 < w2" and "0 < n"
  shows "x / (1 + w2) ^ n < x / (1 + w1) ^ n"
proof -
  have "(1 + w1) ^ n < (1 + w2) ^ n" using assms by (intro power_strict_mono) auto
  moreover have "0 < (1 + w1) ^ n" "0 < (1 + w2) ^ n" using assms by auto
  ultimately show ?thesis using assms(1) by (intro divide_strict_left_mono) auto
qed

lemma terminal_term_antimono:
  fixes x :: real
  assumes "0 \<le> x" and "0 \<le> g" and "g < w1" and "w1 \<le> w2"
  shows "x * (1 + g) / ((w2 - g) * (1 + w2) ^ n) \<le> x * (1 + g) / ((w1 - g) * (1 + w1) ^ n)"
proof -
  have p: "(1 + w1) ^ n \<le> (1 + w2) ^ n" using assms by (intro power_mono) auto
  have pos: "0 < (1 + w1) ^ n" "0 < (1 + w2) ^ n" using assms by auto
  have "(w1 - g) * (1 + w1) ^ n \<le> (w2 - g) * (1 + w2) ^ n"
    using assms p pos by (intro mult_mono) auto
  moreover have "0 < (w1 - g) * (1 + w1) ^ n" "0 < (w2 - g) * (1 + w2) ^ n"
    using assms pos by auto
  moreover have "0 \<le> x * (1 + g)" using assms by auto
  ultimately show ?thesis by (intro divide_left_mono) auto
qed

lemma rfr_unit_value_nonneg:
  assumes "\<forall>x \<in> set revs. 0 \<le> x" and "revs \<noteq> []" and "0 \<le> g" and "g < w"
  shows "0 \<le> rfr_unit_value revs w g"
proof -
  have "0 \<le> (\<Sum>year = 1..length revs. revs ! (year - 1) / (1 + w) ^ year)"
    using assms by (intro sum_nonneg divide_nonneg_nonneg) auto
  moreover have "0 \<le> last revs" using assms by auto
  then have "0 \<le> last revs * (1 + g) / ((w - g) * (1 + w) ^ length revs)"
    using assms by (intro divide_nonneg_nonneg mult_nonneg_nonneg) auto
  ultimately show ?thesis by (simp add: rfr_unit_value_def)
qed

lemma rfr_unit_value_antimono:
  assumes "\<forall>x \<in> set revs. 0 \<le> x" and "revs \<noteq> []" and "0 \<le> g" and "g < w1" and "w1 \<le> w2"
  shows "rfr_unit_value revs w2 g \<le> rfr_unit_value revs w1 g"
proof -
  have "(\<Sum>year = 1..length revs. revs ! (year - 1) / (1 + w2) ^ year)
      \<le> (\<Sum>year = 1..length revs. revs ! (year - 1) / (1 + w1) ^ year)"
    using assms by (intro sum_mono discount_term_antimono) auto
  moreover have "0 \<le> last revs" using assms by auto
  then have "last revs * (1 + g) / ((w2 - g) * (1 + w2) ^ length revs)
      \<le> last revs * (1 + g) / ((w1 - g) * (1 + w1) ^ length revs)"
    using assms by (intro terminal_term_antimono) auto
  ultimately show ?thesis by (simp add: rfr_unit_value_def)
qed

lemma rfr_unit_value_strict:
  assumes "\<forall>x \<in> set revs. 0 \<le> x" and "\<exists>x \<in> set revs. 0 < x" and "0 \<le> g" and "g < w1"
    and "w1 < w2"
  shows "rfr_unit_value revs w2 g < rfr_unit_value revs w1 g"
proof -
  from assms(2) obtain i where i: "i < length revs" "0 < revs ! i"
    by (auto simp: in_set_conv_nth)
  have ne: "revs \<noteq> []" using i by auto
  have le: "\<forall>year \<in> {1..length revs}.
      revs ! (year - 1) / (1 + w2) ^ year \<le> revs ! (year - 1) / (1 + w1) ^ year"
    using assms by (intro ballI discount_term_antimono) auto
  have "Suc i \<in> {1..length revs}" using i by auto
  moreover have "revs ! (Suc i - 1) / (1 + w2) ^ Suc i < revs ! (Suc i - 1) / (1 + w1) ^ Suc i"
    using assms i by (intro discount_term_strict) auto
  ultimately have "\<exists>year \<in> {1..length revs}.
      revs ! (year - 1) / (1 + w2) ^ year < revs ! (year - 1) / (1 + w1) ^ year"
    by blast
  with le have "(\<Sum>year = 1..length revs. revs ! (year - 1) / (1 + w2) ^ year)
      < (\<Sum>year = 1..length revs. revs ! (year - 1) / (1 + w1) ^ year)"
    by (intro sum_strict_mono_ex1) auto
  moreover have "0 \<le> last revs" using assms ne by auto
  then have "last revs * (1 + g) / ((w2 - g) * (1 + w2) ^ length revs)
      \<le> last revs * (1 + g) / ((w1 - g) * (1 + w1) ^ length revs)"
    using assms by (intro terminal_term_antimono) auto
  ultimately show ?thesis by (simp add: rfr_unit_value_def)
qed

lemma relief_from_royalty_total_unit:
  assumes "revs \<noteq> []" and "0 \<le> g" and "g < w"
  shows "\<exists>v. relief_from_royalty revs rr t w a g = Inr v
           \<and> valuation.total_value v = rr * (1 - t) * a * rfr_unit_value revs w g"
proof -
  from assms have "1 + w \<noteq> 0" "w \<noteq> g" by auto
  from relief_from_royalty_returns [OF assms(1) this, of rr t a] show ?thesis
    by (auto simp: rfr_total_unit)
qed

text \<open>
  C9, as the code has it. Let the revenues be non-negative (and the sequence non-empty),
  the tax rate in \<open>[0, 1]\<close>, the attribution in \<open>[0, 1]\<close>, the royalty rate non-negative and
  \<open>w > g \<ge> 0\<close>. Then the Relief-from-Royalty total is non-decreasing in the royalty
  rate, non-decreasing in the attribution, and non-increasing in the WACC. It is strictly
  decreasing in the WACC when, in addition, the royalty rate and the attribution are
  positive, the tax rate is below 1 and some revenue is positive.
\<close>

theorem relief_from_royalty_monotone:
  assumes "revs \<noteq> []" and "\<forall>x \<in> set revs. 0 \<le> x" and "0 \<le> t" and "t \<le> 1" and "0 \<le> g"
  shows "(0 \<le> r1 \<and> r1 \<le> r2 \<and> 0 \<le> a \<and> a \<le> 1 \<and> g < w \<longrightarrow>
            (\<exists>u v. relief_from_royalty revs r1 t w a g = Inr u
                 \<and> relief_from_royalty revs r2 t w a g = Inr v
                 \<and> valuation.total_value u \<le> valuation.total_value v))
       \<and> (0 \<le> r \<and> 0 \<le> a1 \<and> a1 \<le> a2 \<and> a2 \<le> 1 \<and> g < w \<longrightarrow>
            (\<exists>u v. relief_from_royalty revs r t w a1 g = Inr u
                 \<and> relief_from_royalty revs r t w a2 g = Inr v
                 \<and> valuation.total_value u \<le> valuation.total_value v))
       \<and> (0 \<le> r \<and> 0 \<le> a \<and> a \<le> 1 \<and> g < w1 \<and> w1 \<le> w2 \<longrightarrow>
            (\<exists>u v. relief_from_royalty revs r t w1 a g = Inr u
                 \<and> relief_from_royalty revs r t w2 a g = Inr v
                 \<and> valuation.total_value v \<le> valuation.total_value u))
       \<and> (0 < r \<and> 0 < a \<and> a \<le> 1 \<and> t < 1 \<and> (\<exists>x \<in> set revs. 0 < x) \<and> g < w1 \<and> w1 < w2 \<longrightarrow>
            (\<exists>u v. relief_from_royalty revs r t w1 a g = Inr u
                 \<and> relief_from_royalty revs r t w2 a g = Inr v
                 \<and> valuation.total_value v < valuation.total_value u))"
proof (intro conjI impI)
  assume h: "0 \<le> r1 \<and> r1 \<le> r2 \<and> 0 \<le> a \<and> a \<le> 1 \<and> g < w"
  then have k: "0 \<le> rfr_unit_value revs w g"
    using assms by (intro rfr_unit_value_nonneg) auto
  have "r1 * (1 - t) * a * rfr_unit_value revs w g \<le> r2 * (1 - t) * a * rfr_unit_value revs w g"
    using h assms k by (intro mult_right_mono mult_nonneg_nonneg) auto
  with relief_from_royalty_total_unit [OF assms(1,5), of w r1 t a]
    relief_from_royalty_total_unit [OF assms(1,5), of w r2 t a] h
  show "\<exists>u v. relief_from_royalty revs r1 t w a g = Inr u
                 \<and> relief_from_royalty revs r2 t w a g = Inr v
                 \<and> valuation.total_value u \<le> valuation.total_value v"
    by auto
next
  assume h: "0 \<le> r \<and> 0 \<le> a1 \<and> a1 \<le> a2 \<and> a2 \<le> 1 \<and> g < w"
  then have k: "0 \<le> rfr_unit_value revs w g"
    using assms by (intro rfr_unit_value_nonneg) auto
  have "r * (1 - t) * a1 * rfr_unit_value revs w g \<le> r * (1 - t) * a2 * rfr_unit_value revs w g"
    using h assms k by (intro mult_right_mono mult_left_mono mult_nonneg_nonneg) auto
  with relief_from_royalty_total_unit [OF assms(1,5), of w r t a1]
    relief_from_royalty_total_unit [OF assms(1,5), of w r t a2] h
  show "\<exists>u v. relief_from_royalty revs r t w a1 g = Inr u
                 \<and> relief_from_royalty revs r t w a2 g = Inr v
                 \<and> valuation.total_value u \<le> valuation.total_value v"
    by auto
next
  assume h: "0 \<le> r \<and> 0 \<le> a \<and> a \<le> 1 \<and> g < w1 \<and> w1 \<le> w2"
  then have k: "rfr_unit_value revs w2 g \<le> rfr_unit_value revs w1 g"
    using assms by (intro rfr_unit_value_antimono) auto
  have "r * (1 - t) * a * rfr_unit_value revs w2 g \<le> r * (1 - t) * a * rfr_unit_value revs w1 g"
    using h assms k by (intro mult_left_mono mult_nonneg_nonneg) auto
  moreover have "g < w2" using h by auto
  ultimately show "\<exists>u v. relief_from_royalty revs r t w1 a g = Inr u
                 \<and> relief_from_royalty revs r t w2 a g = Inr v
                 \<and> valuation.total_value v \<le> valuation.total_value u"
    using relief_from_royalty_total_unit [OF assms(1,5), of w1 r t a]
      relief_from_royalty_total_unit [OF assms(1,5), of w2 r t a] h
    by auto
next
  assume h: "0 < r \<and> 0 < a \<and> a \<le> 1 \<and> t < 1 \<and> (\<exists>x \<in> set revs. 0 < x) \<and> g < w1 \<and> w1 < w2"
  then have k: "rfr_unit_value revs w2 g < rfr_unit_value revs w1 g"
    using assms by (intro rfr_unit_value_strict) auto
  have "0 < r * (1 - t) * a" using h by auto
  then have "r * (1 - t) * a * rfr_unit_value revs w2 g < r * (1 - t) * a * rfr_unit_value revs w1 g"
    using k by (intro mult_strict_left_mono) auto
  moreover have "g < w2" using h by auto
  ultimately show "\<exists>u v. relief_from_royalty revs r t w1 a g = Inr u
                 \<and> relief_from_royalty revs r t w2 a g = Inr v
                 \<and> valuation.total_value v < valuation.total_value u"
    using relief_from_royalty_total_unit [OF assms(1,5), of w1 r t a]
      relief_from_royalty_total_unit [OF assms(1,5), of w2 r t a] h
    by auto
qed

theorem relief_from_royalty_monotone_witness:
  "(\<exists>u v. relief_from_royalty [100, 110, 121] (5 / 100) (21 / 100) (10 / 100) (1 / 2) (2 / 100) = Inr u
        \<and> relief_from_royalty [100, 110, 121] (6 / 100) (21 / 100) (10 / 100) (1 / 2) (2 / 100) = Inr v
        \<and> valuation.total_value u \<le> valuation.total_value v)
   \<and> (\<exists>u v. relief_from_royalty [100, 110, 121] (5 / 100) (21 / 100) (10 / 100) (1 / 2) (2 / 100) = Inr u
        \<and> relief_from_royalty [100, 110, 121] (5 / 100) (21 / 100) (10 / 100) 1 (2 / 100) = Inr v
        \<and> valuation.total_value u \<le> valuation.total_value v)
   \<and> (\<exists>u v. relief_from_royalty [100, 110, 121] (5 / 100) (21 / 100) (10 / 100) (1 / 2) (2 / 100) = Inr u
        \<and> relief_from_royalty [100, 110, 121] (5 / 100) (21 / 100) (12 / 100) (1 / 2) (2 / 100) = Inr v
        \<and> valuation.total_value v < valuation.total_value u)"
  using relief_from_royalty_monotone [where revs = "[100, 110, 121]" and t = "21 / 100"
      and g = "2 / 100" and ?r1.0 = "5 / 100" and ?r2.0 = "6 / 100" and a = "1 / 2"
      and w = "10 / 100" and r = "5 / 100" and ?a1.0 = "1 / 2" and ?a2.0 = 1
      and ?w1.0 = "10 / 100" and ?w2.0 = "12 / 100"]
  by simp

text \<open>
  The claim as stated allows the royalty rate 0, and then the total is 0 at every WACC:
  it is not strictly decreasing between \<open>w = 10%\<close> and \<open>w = 20%\<close>.
\<close>

theorem relief_from_royalty_monotone_counterexample:
  "map_sum id valuation.total_value
     (relief_from_royalty [100] 0 (21 / 100) (10 / 100) 1 (2 / 100)) = Inr 0
   \<and> map_sum id valuation.total_value
     (relief_from_royalty [100] 0 (21 / 100) (20 / 100) 1 (2 / 100)) = Inr 0"
  by (simp add: relief_from_royalty_def py_div_def py_last_def)

section \<open>The perpetuity when the WACC does not exceed the terminal growth\<close>

lemma mpee_years_returns:
  assumes "1 + w \<noteq> 0"
  shows "\<exists>r. mpee_years om ca ip w t year xs acc = Inr r"
  using assms
proof (induction xs arbitrary: year acc)
  case Nil
  then show ?case by simp
next
  case (Cons x xs)
  then show ?case by (simp add: py_div_def Let_def)
qed

lemma mpee_years_zero_discount:
  assumes "1 + w = 0" and "xs \<noteq> []" and "0 < year"
  shows "mpee_years om ca ip w t year xs acc = Inl ZeroDivisionError"
  using assms by (cases xs) (simp_all add: py_div_def Let_def)

lemma multi_period_excess_earnings_returns:
  assumes "xs \<noteq> []" and "1 + w \<noteq> 0" and "w \<noteq> g"
  shows "\<exists>v. multi_period_excess_earnings xs om ca ip w t g = Inr v
           \<and> pv_terminal_value v = Some (mpee_terminal_pv xs om ca ip w t g)"
proof -
  obtain p d where d: "mpee_years om ca ip w t 1 xs (0, []) = Inr (p, d)"
    using mpee_years_returns [OF assms(2), of om ca ip t 1 xs "(0, [])"] by fastforce
  show ?thesis
    unfolding multi_period_excess_earnings_def d
    using assms by (simp add: py_last_def py_div_def Let_def mpee_terminal_pv_def)
qed

lemma multi_period_excess_earnings_raises:
  "multi_period_excess_earnings [] om ca ip w t g = Inl IndexError"
  "xs \<noteq> [] \<Longrightarrow> 1 + w = 0 \<Longrightarrow> multi_period_excess_earnings xs om ca ip w t g = Inl ZeroDivisionError"
  "xs \<noteq> [] \<Longrightarrow> w = g \<Longrightarrow> multi_period_excess_earnings xs om ca ip w t g = Inl ZeroDivisionError"
proof -
  show "multi_period_excess_earnings [] om ca ip w t g = Inl IndexError"
    by (simp add: multi_period_excess_earnings_def py_last_def)
  show "multi_period_excess_earnings xs om ca ip w t g = Inl ZeroDivisionError"
    if "xs \<noteq> []" "1 + w = 0"
    using that by (simp add: multi_period_excess_earnings_def mpee_years_zero_discount)
  show "multi_period_excess_earnings xs om ca ip w t g = Inl ZeroDivisionError"
    if "xs \<noteq> []" "w = g"
  proof (cases "1 + w = 0")
    case True
    with that show ?thesis
      by (simp add: multi_period_excess_earnings_def mpee_years_zero_discount)
  next
    case False
    obtain p d where d: "mpee_years om ca ip w t 1 xs (0, []) = Inr (p, d)"
      using mpee_years_returns [OF False, of om ca ip t 1 xs "(0, [])"] by fastforce
    show ?thesis
      unfolding multi_period_excess_earnings_def d
      using that by (simp add: py_last_def py_div_def Let_def)
  qed
qed

text \<open>
  C2, as the code has it. Neither method validates its assumptions; there is no
  \<^verbatim>\<open>InvalidAssumption\<close>. When the WACC equals the terminal growth, \<open>relief_from_royalty\<close>
  and \<open>multi_period_excess_earnings\<close> fail with the \<^verbatim>\<open>ZeroDivisionError\<close> of the division by
  \<open>w - g\<close> (with \<^verbatim>\<open>IndexError\<close> on an empty revenue sequence). When the WACC is below the
  terminal growth (revenues non-empty, \<open>w \<noteq> - 1\<close>) both return a result, whose discounted
  terminal value is the Gordon-growth quotient with its negative denominator.
\<close>

theorem gordon_growth_not_validated:
  assumes "w \<le> g"
  shows "(w = g \<longrightarrow>
            relief_from_royalty revs rr t w a g
              = Inl (if revs = [] then IndexError else ZeroDivisionError)
          \<and> multi_period_excess_earnings revs om ca ip w t g
              = Inl (if revs = [] then IndexError else ZeroDivisionError))
       \<and> (w < g \<and> revs \<noteq> [] \<and> w \<noteq> - 1 \<longrightarrow>
            (\<exists>v. relief_from_royalty revs rr t w a g = Inr v
               \<and> pv_terminal_value v = Some (rfr_terminal_pv revs rr t w a g))
          \<and> (\<exists>v. multi_period_excess_earnings revs om ca ip w t g = Inr v
               \<and> pv_terminal_value v = Some (mpee_terminal_pv revs om ca ip w t g)))"
proof (intro conjI impI)
  assume "w = g"
  then show "relief_from_royalty revs rr t w a g
      = Inl (if revs = [] then IndexError else ZeroDivisionError)"
    using relief_from_royalty_raises(1) [of rr t w a g]
      relief_from_royalty_raises(3) [of revs w g rr t a] by auto
next
  assume "w = g"
  then show "multi_period_excess_earnings revs om ca ip w t g
      = Inl (if revs = [] then IndexError else ZeroDivisionError)"
    using multi_period_excess_earnings_raises(1) [of om ca ip w t g]
      multi_period_excess_earnings_raises(3) [of revs w g om ca ip t] by auto
next
  assume h: "w < g \<and> revs \<noteq> [] \<and> w \<noteq> - 1"
  then have "revs \<noteq> []" "1 + w \<noteq> 0" "w \<noteq> g" by auto
  from relief_from_royalty_returns [OF this, of rr t a]
  show "\<exists>v. relief_from_royalty revs rr t w a g = Inr v
               \<and> pv_terminal_value v = Some (rfr_terminal_pv revs rr t w a g)"
    by auto
next
  assume h: "w < g \<and> revs \<noteq> [] \<and> w \<noteq> - 1"
  then have "revs \<noteq> []" "1 + w \<noteq> 0" "w \<noteq> g" by auto
  from multi_period_excess_earnings_returns [OF this, of om ca ip t]
  show "\<exists>v. multi_period_excess_earnings revs om ca ip w t g = Inr v
               \<and> pv_terminal_value v = Some (mpee_terminal_pv revs om ca ip w t g)"
    by auto
qed

theorem gordon_growth_not_validated_witness:
  "(5 / 100 :: real) \<le> 10 / 100
   \<and> (\<exists>v. relief_from_royalty [100] (5 / 100) (21 / 100) (5 / 100) 1 (10 / 100) = Inr v
        \<and> pv_terminal_value v = Some (- 1738 / 21))
   \<and> (\<exists>v. multi_period_excess_earnings [100] (30 / 100) [(''working_capital'', 2 / 100)]
             (50 / 100) (5 / 100) (21 / 100) (10 / 100) = Inr v
        \<and> pv_terminal_value v = Some (- 25201 / 105))
   \<and> relief_from_royalty [100] (5 / 100) (21 / 100) (2 / 100) 1 (2 / 100) = Inl ZeroDivisionError
   \<and> multi_period_excess_earnings [100] (30 / 100) [(''working_capital'', 2 / 100)]
             (50 / 100) (2 / 100) (21 / 100) (2 / 100) = Inl ZeroDivisionError"
  using gordon_growth_not_validated [where w = "5 / 100" and g = "10 / 100" and revs = "[100]"
      and rr = "5 / 100" and t = "21 / 100" and a = 1 and om = "30 / 100"
      and ca = "[(''working_capital'', 2 / 100)]" and ip = "50 / 100"]
    gordon_growth_not_validated [where w = "2 / 100" and g = "2 / 100" and revs = "[100]"
      and rr = "5 / 100" and t = "21 / 100" and a = 1 and om = "30 / 100"
      and ca = "[(''working_capital'', 2 / 100)]" and ip = "50 / 100"]
  by (simp add: rfr_terminal_pv_def mpee_terminal_pv_def)

text \<open>
  The claim as stated fails at WACC 5%, terminal growth 10%: on one year of revenue 100
  (royalty 5%, tax 21%) Relief from Royalty returns the total \<open>- 79\<close>.
\<close>

theorem gordon_growth_not_validated_counterexample:
  "map_sum id valuation.total_value
     (relief_from_royalty [100] (5 / 100) (21 / 100) (5 / 100) 1 (10 / 100)) = Inr (- 79)"
  by (simp add: relief_from_royalty_def py_div_def py_last_def)

section \<open>Properties of the Technology Factor method\<close>

lemma tf_years_value:
  assumes "1 + w \<noteq> 0" and "rl \<noteq> 0" and "\<forall>y \<in> set ys. 1 \<le> y \<and> y \<le> length revs"
  shows "\<exists>d. tf_years revs adj rl t w ys acc =
           Inr (fst acc + sum_list (map (\<lambda>year. revs ! (year - 1) * adj * (1 - t)
                  * max (1 - real year / (real_of_int rl * 1.5)) 0.3 / (1 + w) ^ year) ys), d)"
  using assms(3)
proof (induction ys arbitrary: acc)
  case Nil
  then show ?case by (cases acc) simp
next
  case (Cons y ys)
  from Cons.prems have y: "1 \<le> y" "y \<le> length revs" by auto
  then have idx: "py_index revs (int y - 1) = Inr (revs ! (y - 1))"
    by (auto simp: py_index_def nat_diff_distrib')
  define pv where "pv = revs ! (y - 1) * adj * (1 - t)
      * max (1 - real y / (real_of_int rl * 1.5)) 0.3 / (1 + w) ^ y"
  define acc' where "acc' = (fst acc + pv,
      snd acc @ [[(''year'', real y), (''revenue'', revs ! (y - 1)),
                  (''decay_factor'', max (1 - real y / (real_of_int rl * 1.5)) 0.3),
                  (''royalty_savings'', revs ! (y - 1) * adj * (1 - t)
                      * max (1 - real y / (real_of_int rl * 1.5)) 0.3),
                  (''present_value'', pv)]])"
  have step: "tf_years revs adj rl t w (y # ys) acc = tf_years revs adj rl t w ys acc'"
    using assms(1,2) y by (simp add: idx py_div_def Let_def acc'_def pv_def)
  from Cons.IH [of acc'] Cons.prems
  obtain d where "tf_years revs adj rl t w ys acc' =
      Inr (fst acc' + sum_list (map (\<lambda>year. revs ! (year - 1) * adj * (1 - t)
             * max (1 - real year / (real_of_int rl * 1.5)) 0.3 / (1 + w) ^ year) ys), d)"
    by auto
  then show ?case
    unfolding step by (simp add: acc'_def pv_def add.assoc)
qed


lemma sum_list_years:
  "sum_list (map f [1..<Suc n]) = (\<Sum>year = 1..n. f year)" for f :: "nat \<Rightarrow> real"
  by (simp only: interv_sum_list_conv_sum_set_nat set_upt atLeastLessThanSuc_atLeastAtMost)

text \<open>
  C6. On every valid input, that is a total patent life other than 0 and a WACC other
  than \<open>- 1\<close> (the two divisors of the function), \<open>technology_factor_valuation\<close> returns,
  and its \<^verbatim>\<open>total_value\<close> is the sum over the years \<open>1..min (length of the revenues,
  remaining life)\<close> of \<open>revenue \<times> base_royalty_rate \<times> (1 + tech_factor) \<times> (1 - tax_rate) \<times>
  max (1 - year / (remaining life \<times> 1.5), 0.3) / (1 + WACC) ^ year\<close>, with \<open>tech_factor =
  0.30 \<times> innovation + 0.35 \<times> commercial + 0.25 \<times> legal strength + 0.10 \<times> (remaining life /
  total patent life)\<close>. Nothing else is added: the result has no terminal value.
\<close>

theorem technology_factor_total:
  assumes "tpl \<noteq> 0" and "w \<noteq> - 1"
  shows "\<exists>v. technology_factor_valuation revs b inn com leg rl tpl t w = Inr v
           \<and> valuation.total_value v
               = (\<Sum>year = 1..nat (min (int (length revs)) rl).
                    revs ! (year - 1)
                    * (b * (1 + (inn * 0.30 + com * 0.35 + leg * 0.25
                                 + real_of_int rl / real_of_int tpl * 0.10)))
                    * (1 - t)
                    * max (1 - real year / (real_of_int rl * 1.5)) 0.3
                    / (1 + w) ^ year)
           \<and> pv_terminal_value v = None \<and> pv_explicit_period v = None"
proof -
  define n where "n = nat (min (int (length revs)) rl)"
  define adj where "adj = b * (1 + (inn * 0.30 + com * 0.35 + leg * 0.25
                                 + real_of_int rl / real_of_int tpl * 0.10))"
  have ys: "[1..<nat (min (int (length revs)) rl + 1)] = [1..<Suc n]"
    by (cases "0 \<le> min (int (length revs)) rl") (auto simp: n_def nat_add_distrib)
  have w1: "1 + w \<noteq> 0" using assms by auto
  have "\<exists>d. tf_years revs adj rl t w [1..<Suc n] (0, []) =
      Inr ((\<Sum>year = 1..n. revs ! (year - 1) * adj * (1 - t)
             * max (1 - real year / (real_of_int rl * 1.5)) 0.3 / (1 + w) ^ year), d)"
  proof (cases "n = 0")
    case True
    then show ?thesis by simp
  next
    case False
    then have rl0: "rl \<noteq> 0" by (auto simp: n_def)
    have b: "\<forall>y \<in> set [1..<Suc n]. 1 \<le> y \<and> y \<le> length revs"
      by (auto simp: n_def)
    from tf_years_value [OF w1 rl0 b, of adj t "(0, [])"] show ?thesis
      by (simp only: sum_list_years fst_conv add_0)
  qed
  then obtain d where d: "tf_years revs adj rl t w [1..<Suc n] (0, []) =
      Inr ((\<Sum>year = 1..n. revs ! (year - 1) * adj * (1 - t)
             * max (1 - real year / (real_of_int rl * 1.5)) 0.3 / (1 + w) ^ year), d)"
    by blast
  show ?thesis
    unfolding technology_factor_valuation_def Let_def ys
    using assms(1) d by (simp add: py_div_def adj_def n_def)
qed

text \<open>
  Three years of revenue and two years of remaining life: two years are valued.
\<close>

theorem technology_factor_total_witness:
  "(20 :: int) \<noteq> 0 \<and> (10 / 100 :: real) \<noteq> - 1
   \<and> map_sum id valuation.total_value
        (technology_factor_valuation [100, 110, 121] (5 / 100) (92 / 100) (88 / 100) (90 / 100)
           2 20 (21 / 100) (10 / 100))
       = Inr (143701 / 22000)"
proof -
  have h: "(20 :: int) \<noteq> 0" "(10 / 100 :: real) \<noteq> - 1" by simp_all
  from technology_factor_total [OF h, of "[100, 110, 121]" "5 / 100" "92 / 100" "88 / 100"
      "90 / 100" 2 "21 / 100"]
  obtain v where v: "technology_factor_valuation [100, 110, 121] (5 / 100) (92 / 100) (88 / 100)
        (90 / 100) 2 20 (21 / 100) (10 / 100) = Inr v"
    and tv: "valuation.total_value v
       = (\<Sum>year = 1..nat (min (int (length [100, 110, 121 :: real])) 2).
            [100, 110, 121] ! (year - 1)
            * (5 / 100 * (1 + (92 / 100 * 0.30 + 88 / 100 * 0.35 + 90 / 100 * 0.25
                               + real_of_int 2 / real_of_int 20 * 0.10)))
            * (1 - 21 / 100)
            * max (1 - real year / (real_of_int 2 * 1.5)) 0.3
            / (1 + 10 / 100) ^ year)"
    by blast
  have "valuation.total_value v = 143701 / 22000"
    unfolding tv by (simp add: eval_nat_numeral sum.atLeast_Suc_atMost)
  with v show ?thesis by simp
qed

section \<open>Zero-length revenue sequences\<close>

text \<open>
  C7, as the code has it. No method raises \<^verbatim>\<open>InsufficientData\<close>, which the code does not
  have. On a zero-length revenue sequence \<open>relief_from_royalty\<close> and
  \<open>multi_period_excess_earnings\<close> fail with Python's \<^verbatim>\<open>IndexError\<close>, raised by
  \<^verbatim>\<open>segment_revenues[-1]\<close>; \<open>technology_factor_valuation\<close> does not fail: it returns the
  total 0 with an empty ledger (and raises \<^verbatim>\<open>ZeroDivisionError\<close> when the total patent life
  is 0).
\<close>

theorem empty_revenue_sequence:
  "relief_from_royalty [] rr t w a g = Inl IndexError
   \<and> multi_period_excess_earnings [] om ca ip w t g = Inl IndexError
   \<and> (tpl = 0 \<longrightarrow>
        technology_factor_valuation [] b inn com leg rl tpl t w = Inl ZeroDivisionError)
   \<and> (tpl \<noteq> 0 \<longrightarrow>
        (\<exists>v. technology_factor_valuation [] b inn com leg rl tpl t w = Inr v
           \<and> valuation.total_value v = 0 \<and> yearly_details v = []))"
proof -
  have ys: "[1..<nat (min (int (length ([] :: real list))) rl + 1)] = []" by auto
  show ?thesis
    unfolding technology_factor_valuation_def Let_def ys
    by (simp add: relief_from_royalty_raises(1) multi_period_excess_earnings_raises(1)
        py_div_def)
qed

theorem empty_revenue_sequence_witness:
  "(20 :: int) \<noteq> 0
   \<and> relief_from_royalty [] (5 / 100) (21 / 100) (10 / 100) 1 (2 / 100) = Inl IndexError
   \<and> multi_period_excess_earnings [] (30 / 100) [(''working_capital'', 2 / 100)] (50 / 100)
        (10 / 100) (21 / 100) (2 / 100) = Inl IndexError
   \<and> (\<exists>v. technology_factor_valuation [] (5 / 100) (92 / 100) (88 / 100) (90 / 100) 12 20
             (21 / 100) (10 / 100) = Inr v
        \<and> valuation.total_value v = 0 \<and> yearly_details v = [])"
  using empty_revenue_sequence [where tpl = 20 and rr = "5 / 100" and t = "21 / 100"
      and w = "10 / 100" and a = 1 and g = "2 / 100" and om = "30 / 100"
      and ca = "[(''working_capital'', 2 / 100)]" and ip = "50 / 100" and b = "5 / 100"
      and inn = "92 / 100" and com = "88 / 100" and leg = "90 / 100" and rl = 12]
  by simp

text \<open>
  The claim as stated fails for the Technology Factor method: on no revenues it returns
  a valuation, of value 0.
\<close>

theorem empty_revenue_sequence_counterexample:
  "map_sum id valuation.total_value
     (technology_factor_valuation [] (5 / 100) (7 / 10) (7 / 10) (7 / 10) 10 20 (21 / 100)
        (10 / 100)) = Inr 0"
  by (simp add: technology_factor_valuation_def py_div_def)

section \<open>Properties of the Segment Financial Allocator\<close>

lemmas fetch_eval = fetch_segment_financials_def fixture_client_def listing_def
  normalize_label_def lower_char_def period_amount_def item_matches_def get_num_def get_str_def
  get_list_def List.map_filter_def allocation_fraction_def margin_of_def segment_share_def
  available_segments_def Let_def char_of_def bit_iff_odd_drop_bit drop_bit_eq_div






section \<open>Properties of the Portfolio Orchestrator\<close>

subsection \<open>The cache\<close>

lemma cache_key_inj: "cache_key tkr n1 yrs = cache_key tkr n2 yrs \<Longrightarrow> n1 = n2"
  by (simp add: cache_key_def)

lemma prepare_segment_financials_consistent:
  assumes "cache_consistent eng tkr yrs"
  shows "\<exists>eng'. prepare_segment_financials eng tkr nm yrs
                 = (fetch_segment_financials (client eng) tkr nm yrs, eng')
               \<and> client eng' = client eng \<and> cache_consistent eng' tkr yrs"
proof (cases "cache eng (cache_key tkr nm yrs)")
  case (Some sd)
  with assms have "fetch_segment_financials (client eng) tkr nm yrs = Inr sd"
    by (simp add: cache_consistent_def)
  with Some assms show ?thesis
    by (simp add: prepare_segment_financials_def)
next
  case None
  show ?thesis
  proof (cases "fetch_segment_financials (client eng) tkr nm yrs")
    case (Inl e)
    with None assms show ?thesis by (simp add: prepare_segment_financials_def)
  next
    case (Inr result)
    define eng' where "eng' = eng\<lparr> cache := (cache eng)(cache_key tkr nm yrs \<mapsto> result) \<rparr>"
    have "cache_consistent eng' tkr yrs"
      unfolding cache_consistent_def
    proof (intro allI impI)
      fix nm' sd assume h: "cache eng' (cache_key tkr nm' yrs) = Some sd"
      show "fetch_segment_financials (client eng') tkr nm' yrs = Inr sd"
      proof (cases "nm' = nm")
        case True
        with h Inr show ?thesis by (simp add: eng'_def)
      next
        case False
        then have "cache_key tkr nm' yrs \<noteq> cache_key tkr nm yrs"
          using cache_key_inj by blast
        with h assms show ?thesis by (simp add: eng'_def cache_consistent_def)
      qed
    qed
    with None Inr show ?thesis
      by (simp add: prepare_segment_financials_def eng'_def)
  qed
qed

subsection \<open>The loop over the segments of an asset\<close>

lemma extend_total_value [simp]:
  "valuation.total_value (valuation.extend r m) = valuation.total_value r"
  by (simp add: valuation.defs)

lemma extend_segment [simp]:
  "segment (valuation.extend r (segment_valuation.fields n a sd)) = n"
  by (simp add: valuation.defs segment_valuation.defs)

lemma value_segments_result:
  assumes "cache_consistent eng tkr yrs" and "client eng = cl"
    and "\<forall>s \<in> set segs. resolves cl tkr yrs s \<longrightarrow>
           \<not> isl (segment_result cl tkr asset w t g yrs s)"
  shows "\<exists>eng'. value_segments eng tkr asset w t g yrs segs acc
           = (Inr (fst acc + sum_list (map (\<lambda>s. valuation.total_value
                                (projr (segment_result cl tkr asset w t g yrs s)))
                              (filter (resolves cl tkr yrs) segs)),
                   snd acc @ map (\<lambda>s. projr (segment_result cl tkr asset w t g yrs s))
                              (filter (resolves cl tkr yrs) segs)), eng')
         \<and> client eng' = cl \<and> cache_consistent eng' tkr yrs"
  using assms
proof (induction segs arbitrary: eng acc)
  case Nil
  then show ?case by simp
next
  case (Cons s segs)
  from prepare_segment_financials_consistent [OF Cons.prems(1), of "name s"] Cons.prems(2)
  obtain eng1 where p: "prepare_segment_financials eng tkr (name s) yrs
      = (fetch_segment_financials cl tkr (name s) yrs, eng1)"
    and c1: "client eng1 = cl" and k1: "cache_consistent eng1 tkr yrs"
    by auto
  have rest: "\<forall>s \<in> set segs. resolves cl tkr yrs s \<longrightarrow>
           \<not> isl (segment_result cl tkr asset w t g yrs s)"
    using Cons.prems(3) by simp
  show ?case
  proof (cases "fetch_segment_financials cl tkr (name s) yrs")
    case (Inl e)
    then have nr: "\<not> resolves cl tkr yrs s" by (simp add: resolves_def)
    from Cons.IH [OF k1 c1 rest, of acc] Inl nr show ?thesis
      by (simp add: p Let_def)
  next
    case (Inr sd)
    then have r: "resolves cl tkr yrs s" by (simp add: resolves_def)
    with Cons.prems(3) have "\<not> isl (segment_result cl tkr asset w t g yrs s)" by simp
    then obtain res where res: "select_valuation_method asset sd
        (map (\<lambda>r. r * attribution_pct s) (revenues sd)) w t g = Inr res"
      and sr: "segment_result cl tkr asset w t g yrs s
        = Inr (valuation.extend res (segment_valuation.fields (name s) (attribution_pct s) sd))"
      using Inr by (auto simp: segment_result_def split: sum.splits)
    define acc' where "acc' = (fst acc + valuation.total_value res,
        snd acc @ [valuation.extend res
                     (segment_valuation.fields (name s) (attribution_pct s) sd)])"
    have step: "value_segments eng tkr asset w t g yrs (s # segs) acc
        = value_segments eng1 tkr asset w t g yrs segs acc'"
      by (simp add: p Inr res Let_def acc'_def)
    from Cons.IH [OF k1 c1 rest, of acc'] show ?thesis
      unfolding step by (simp add: r sr acc'_def add.assoc)
  qed
qed

lemma fetch_revenues_nonempty:
  assumes "fetch_segment_financials cl tkr nm yrs = Inr sd"
  shows "revenues sd \<noteq> []"
  using assms
  by (auto simp: fetch_segment_financials_def Let_def split: if_splits)

lemma cache_consistent_empty:
  "cache eng = Map.empty \<Longrightarrow> cache_consistent eng tkr yrs"
  by (simp add: cache_consistent_def)

lemma value_ip_asset_segments:
  assumes "cache_consistent eng tkr yrs"
    and "\<forall>s \<in> set (related_segments asset). resolves (client eng) tkr yrs s \<longrightarrow>
           \<not> isl (segment_result (client eng) tkr asset w t g yrs s)"
  shows "\<exists>av eng'. value_ip_asset eng tkr asset w t g yrs = (Inr av, eng')
           \<and> segment_valuations av
               = map (\<lambda>s. projr (segment_result (client eng) tkr asset w t g yrs s))
                   (filter (resolves (client eng) tkr yrs) (related_segments asset))
           \<and> asset_valuation.total_value av
               = sum_list (map valuation.total_value (segment_valuations av))"
proof -
  from value_segments_result [OF assms(1) refl assms(2), of "(0, [])"]
  obtain eng' where v: "value_segments eng tkr asset w t g yrs (related_segments asset) (0, [])
       = (Inr (sum_list (map (\<lambda>s. valuation.total_value
                 (projr (segment_result (client eng) tkr asset w t g yrs s)))
                 (filter (resolves (client eng) tkr yrs) (related_segments asset))),
               map (\<lambda>s. projr (segment_result (client eng) tkr asset w t g yrs s))
                 (filter (resolves (client eng) tkr yrs) (related_segments asset))), eng')"
    by auto
  show ?thesis
    unfolding value_ip_asset_def v by (simp add: comp_def)
qed

lemma segment_result_resolved:
  assumes "fetch_segment_financials cl tkr (name s) yrs = Inr sd"
    and "select_valuation_method asset sd (map (\<lambda>r. r * attribution_pct s) (revenues sd)) w t g
           = Inr res"
  shows "segment_result cl tkr asset w t g yrs s
           = Inr (valuation.extend res
                    (segment_valuation.fields (name s) (attribution_pct s) sd))"
  using assms by (simp add: segment_result_def)


lemma fixture_widgets:
  "\<exists>sd. fetch_segment_financials fixture_client ''ACME'' ''Widgets'' 5 = Inr sd
        \<and> revenues sd = [100]"
  by (simp add: fetch_eval)

lemma fixture_gadgets:
  "isl (fetch_segment_financials fixture_client ''ACME'' ''Gadgets'' 5)"
  by (simp add: fetch_eval)



subsection \<open>An unknown method selector\<close>





subsection \<open>Attribution applied to the revenues\<close>

lemma rfr_premultiplied:
  assumes "revs \<noteq> []" and "1 + w \<noteq> 0" and "w \<noteq> g"
  shows "\<exists>u v. relief_from_royalty (map (\<lambda>r. r * a) revs) rr t w 1 g = Inr u
             \<and> relief_from_royalty revs rr t w a g = Inr v
             \<and> valuation.total_value u = valuation.total_value v"
proof -
  have ne': "map (\<lambda>r. r * a) revs \<noteq> []" using assms(1) by simp
  have "rfr_explicit_pv (map (\<lambda>r. r * a) revs) rr t w 1 = rfr_explicit_pv revs rr t w a"
    unfolding rfr_explicit_pv_scale by (rule rfr_explicit_pv_attribution [symmetric])
  moreover have "rfr_terminal_pv (map (\<lambda>r. r * a) revs) rr t w 1 g = rfr_terminal_pv revs rr t w a g"
    unfolding rfr_terminal_pv_scale [OF assms(1)] by (rule rfr_terminal_pv_attribution [symmetric])
  ultimately show ?thesis
    using relief_from_royalty_returns [OF ne' assms(2,3), of rr t 1]
      relief_from_royalty_returns [OF assms, of rr t a]
    by auto
qed

lemma sum_list_filter_zero:
  "sum_list (map f (filter P xs)) = sum_list (map (\<lambda>x. if P x then f x else (0::real)) xs)"
  by (induction xs) simp_all

lemma segment_result_rfr:
  assumes "valuation_method asset = ''relief_from_royalty''" and "1 + w \<noteq> 0" and "w \<noteq> g"
  shows "(resolves cl tkr yrs s \<longrightarrow>
            \<not> isl (segment_result cl tkr asset w t g yrs s)
            \<and> valuation.total_value (projr (segment_result cl tkr asset w t g yrs s))
                = unscaled_rfr_total cl tkr asset w t g yrs s)
       \<and> (\<not> resolves cl tkr yrs s \<longrightarrow> unscaled_rfr_total cl tkr asset w t g yrs s = 0)"
proof (cases "fetch_segment_financials cl tkr (name s) yrs")
  case (Inl e)
  then show ?thesis by (simp add: resolves_def unscaled_rfr_total_def)
next
  case (Inr sd)
  from rfr_premultiplied [OF fetch_revenues_nonempty [OF Inr] assms(2,3),
      of "attribution_pct s" "royalty_rate asset" t]
  obtain u v where u: "relief_from_royalty (map (\<lambda>r. r * attribution_pct s) (revenues sd))
        (royalty_rate asset) t w 1 g = Inr u"
    and v: "relief_from_royalty (revenues sd) (royalty_rate asset) t w (attribution_pct s) g
        = Inr v"
    and uv: "valuation.total_value u = valuation.total_value v"
    by blast
  have sel: "select_valuation_method asset sd (map (\<lambda>r. r * attribution_pct s) (revenues sd))
      w t g = Inr u"
    using u assms(1) by (simp add: select_valuation_method_def)
  from segment_result_resolved [OF Inr sel] Inr v uv show ?thesis
    by (simp add: resolves_def unscaled_rfr_total_def)
qed

text \<open>
  C10. Relief from Royalty is homogeneous of degree 1 in its revenue sequence: whenever it
  returns on a revenue sequence, it returns on the sequence scaled by any factor \<open>c\<close>, and
  \<^verbatim>\<open>total_value\<close>, \<^verbatim>\<open>pv_explicit_period\<close> and \<^verbatim>\<open>pv_terminal_value\<close> are scaled by \<open>c\<close>; and
  on the revenues multiplied by an attribution, with \<^verbatim>\<open>attribution_pct = 1.0\<close>, it returns
  the same total as on the unscaled revenues with that attribution as \<^verbatim>\<open>attribution_pct\<close>.
  Consequently \<^verbatim>\<open>value_ip_asset\<close>, which for a Relief-from-Royalty asset multiplies the
  revenues of each segment by the segment's attribution and calls the method with
  \<^verbatim>\<open>attribution_pct = 1.0\<close>, returns as \<^verbatim>\<open>total_value\<close> the sum over the asset's segments of the
  totals that Relief from Royalty gives on the unscaled revenues with the attribution
  passed as \<^verbatim>\<open>attribution_pct\<close>. (In exact arithmetic; the factor need not be
  non-negative.)
\<close>

theorem relief_from_royalty_homogeneous:
  "(relief_from_royalty revs rr t w a g = Inr v \<longrightarrow>
      (\<exists>v'. relief_from_royalty (map (\<lambda>r. r * c) revs) rr t w a g = Inr v'
            \<and> valuation.total_value v' = c * valuation.total_value v
            \<and> pv_explicit_period v' = map_option (\<lambda>x. c * x) (pv_explicit_period v)
            \<and> pv_terminal_value v' = map_option (\<lambda>x. c * x) (pv_terminal_value v))
      \<and> (\<exists>u. relief_from_royalty (map (\<lambda>r. r * a) revs) rr t w 1 g = Inr u
            \<and> valuation.total_value u = valuation.total_value v))
   \<and> (cache_consistent eng tkr yrs \<and> valuation_method asset = ''relief_from_royalty''
        \<and> w \<noteq> g \<and> w \<noteq> - 1 \<longrightarrow>
      (\<exists>av eng'. value_ip_asset eng tkr asset w t g yrs = (Inr av, eng')
         \<and> asset_valuation.total_value av
             = sum_list (map (unscaled_rfr_total (client eng) tkr asset w t g yrs)
                           (related_segments asset))))"
proof (intro conjI impI)
  assume r: "relief_from_royalty revs rr t w a g = Inr v"
  from relief_from_royalty_returns_iff [OF r]
  have ne: "revs \<noteq> []" and w1: "1 + w \<noteq> 0" and wg: "w \<noteq> g" by auto
  from relief_from_royalty_returns [OF ne w1 wg, of rr t a] r
  have v: "pv_explicit_period v = Some (rfr_explicit_pv revs rr t w a)"
    "pv_terminal_value v = Some (rfr_terminal_pv revs rr t w a g)"
    "valuation.total_value v = rfr_explicit_pv revs rr t w a + rfr_terminal_pv revs rr t w a g"
    by auto
  have ne': "map (\<lambda>r. r * c) revs \<noteq> []" using ne by auto
  show "\<exists>v'. relief_from_royalty (map (\<lambda>r. r * c) revs) rr t w a g = Inr v'
            \<and> valuation.total_value v' = c * valuation.total_value v
            \<and> pv_explicit_period v' = map_option (\<lambda>x. c * x) (pv_explicit_period v)
            \<and> pv_terminal_value v' = map_option (\<lambda>x. c * x) (pv_terminal_value v)"
    using relief_from_royalty_returns [OF ne' w1 wg, of rr t a]
    by (auto simp: v rfr_explicit_pv_scale rfr_terminal_pv_scale [OF ne] algebra_simps)
  show "\<exists>u. relief_from_royalty (map (\<lambda>r. r * a) revs) rr t w 1 g = Inr u
            \<and> valuation.total_value u = valuation.total_value v"
    using rfr_premultiplied [OF ne w1 wg, of a rr t] r by auto
next
  assume h: "cache_consistent eng tkr yrs \<and> valuation_method asset = ''relief_from_royalty''
        \<and> w \<noteq> g \<and> w \<noteq> - 1"
  then have c: "cache_consistent eng tkr yrs"
    and m: "valuation_method asset = ''relief_from_royalty''"
    and wg: "w \<noteq> g" and w1: "1 + w \<noteq> 0" by auto
  note sr = segment_result_rfr [OF m w1 wg, of "client eng" tkr yrs _ t]
  have ok: "\<forall>s \<in> set (related_segments asset). resolves (client eng) tkr yrs s \<longrightarrow>
           \<not> isl (segment_result (client eng) tkr asset w t g yrs s)"
    using sr by blast
  from value_ip_asset_segments [OF c ok]
  obtain av eng' where av: "value_ip_asset eng tkr asset w t g yrs = (Inr av, eng')"
    and sv: "segment_valuations av
               = map (\<lambda>s. projr (segment_result (client eng) tkr asset w t g yrs s))
                   (filter (resolves (client eng) tkr yrs) (related_segments asset))"
    and tv: "asset_valuation.total_value av
               = sum_list (map valuation.total_value (segment_valuations av))"
    by blast
  have "asset_valuation.total_value av
      = sum_list (map (\<lambda>s. valuation.total_value
                        (projr (segment_result (client eng) tkr asset w t g yrs s)))
                   (filter (resolves (client eng) tkr yrs) (related_segments asset)))"
    unfolding tv sv by (simp add: comp_def)
  also have "\<dots> = sum_list (map (\<lambda>s. if resolves (client eng) tkr yrs s
                       then valuation.total_value
                              (projr (segment_result (client eng) tkr asset w t g yrs s))
                       else 0) (related_segments asset))"
    by (rule sum_list_filter_zero)
  also have "\<dots> = sum_list (map (unscaled_rfr_total (client eng) tkr asset w t g yrs)
                           (related_segments asset))"
    by (rule arg_cong [where f = sum_list], rule map_cong [OF refl]) (use sr in auto)
  finally show "\<exists>av eng'. value_ip_asset eng tkr asset w t g yrs = (Inr av, eng')
         \<and> asset_valuation.total_value av
             = sum_list (map (unscaled_rfr_total (client eng) tkr asset w t g yrs)
                           (related_segments asset))"
    using av by blast
qed

text \<open>
  On scenario A with attribution 30%: the total is \<open>14931 / 880\<close>, doubling the revenues
  doubles it, and moving the attribution into the revenues leaves it unchanged. On the
  asset of the examples: \<^verbatim>\<open>value_ip_asset\<close> returns the total \<open>395 / 16\<close>, which is what Relief
  from Royalty gives on the revenue 100 of \<^verbatim>\<open>Widgets\<close> with \<^verbatim>\<open>attribution_pct\<close> 50%.
\<close>

theorem relief_from_royalty_homogeneous_witness:
  "map_sum id valuation.total_value
     (relief_from_royalty [100, 110, 121] (5 / 100) (21 / 100) (10 / 100) (3 / 10) (2 / 100))
     = Inr (14931 / 880)
   \<and> map_sum id valuation.total_value
     (relief_from_royalty (map (\<lambda>r. r * 2) [100, 110, 121]) (5 / 100) (21 / 100) (10 / 100)
        (3 / 10) (2 / 100))
     = Inr (14931 / 440)
   \<and> map_sum id valuation.total_value
     (relief_from_royalty (map (\<lambda>r. r * (3 / 10)) [100, 110, 121]) (5 / 100) (21 / 100)
        (10 / 100) 1 (2 / 100))
     = Inr (14931 / 880)
   \<and> cache_consistent fixture_engine ''ACME'' 5
   \<and> valuation_method (fixture_asset ''relief_from_royalty'') = ''relief_from_royalty''
   \<and> map_sum id asset_valuation.total_value
       (fst (value_ip_asset fixture_engine ''ACME'' (fixture_asset ''relief_from_royalty'')
               (10 / 100) (21 / 100) (2 / 100) 5))
     = Inr (395 / 16)
   \<and> map_sum id valuation.total_value
       (relief_from_royalty [100] (5 / 100) (21 / 100) (10 / 100) (1 / 2) (2 / 100))
     = Inr (395 / 16)"
proof -
  let ?asset = "fixture_asset ''relief_from_royalty''"
  obtain v where v: "relief_from_royalty [100, 110, 121] (5 / 100) (21 / 100) (10 / 100) (3 / 10)
       (2 / 100) = Inr v"
    and tv: "valuation.total_value v
       = rfr_explicit_pv [100, 110, 121] (5 / 100) (21 / 100) (10 / 100) (3 / 10)
         + rfr_terminal_pv [100, 110, 121] (5 / 100) (21 / 100) (10 / 100) (3 / 10) (2 / 100)"
    using relief_from_royalty_returns
      [of "[100, 110, 121]" "10 / 100" "2 / 100" "5 / 100" "21 / 100" "3 / 10"]
    by auto
  have n: "valuation.total_value v = 14931 / 880"
    unfolding tv rfr_explicit_pv_def rfr_terminal_pv_def
    by (simp add: eval_nat_numeral sum.atLeast_Suc_atMost)
  have c: "cache_consistent fixture_engine ''ACME'' 5"
    by (rule cache_consistent_empty) (simp add: fixture_engine_def)
  have m: "valuation_method ?asset = ''relief_from_royalty''" by (simp add: fixture_asset_def)
  have x: "map_sum id valuation.total_value
       (relief_from_royalty [100] (5 / 100) (21 / 100) (10 / 100) (1 / 2) (2 / 100))
     = Inr (395 / 16)"
    by (simp add: relief_from_royalty_def py_div_def py_last_def)
  obtain sd where sd: "fetch_segment_financials fixture_client ''ACME'' ''Widgets'' 5 = Inr sd"
    and rv: "revenues sd = [100]" using fixture_widgets by blast
  have uW: "unscaled_rfr_total fixture_client ''ACME'' ?asset (10 / 100) (21 / 100) (2 / 100) 5
      \<lparr> name = ''Widgets'', attribution_pct = 1 / 2 \<rparr> = 395 / 16"
    using x by (auto simp: unscaled_rfr_total_def sd rv fixture_asset_def split: sum.splits)
  have uG: "unscaled_rfr_total fixture_client ''ACME'' ?asset (10 / 100) (21 / 100) (2 / 100) 5
      \<lparr> name = ''Gadgets'', attribution_pct = 1 / 5 \<rparr> = 0"
    using fixture_gadgets by (auto simp: unscaled_rfr_total_def split: sum.splits)
  have s: "sum_list (map (unscaled_rfr_total (client fixture_engine) ''ACME'' ?asset
              (10 / 100) (21 / 100) (2 / 100) 5) (related_segments ?asset)) = 395 / 16"
    using uW uG by (simp add: fixture_engine_def fixture_asset_def)
  from relief_from_royalty_homogeneous [where revs = "[100, 110, 121]" and rr = "5 / 100"
      and t = "21 / 100" and w = "10 / 100" and a = "3 / 10" and g = "2 / 100" and v = v
      and c = 2 and eng = fixture_engine and tkr = "''ACME''" and yrs = 5 and asset = ?asset]
    v n c m s x
  show ?thesis by auto
qed

end
